theory Spec2Isabelle
  imports Complex_Main "HOL-Library.Word" "HOL-Library.Sublist"
begin

section \<open>Candles and the rolling window\<close>

text \<open>
  The candle of \<^verbatim>\<open>types.ts\<close> (\<^verbatim>\<open>CandleData\<close>). JavaScript numbers are modelled as
  exact rationals: rounding, NaN and the infinities of IEEE doubles are outside the model.
  The key \<^verbatim>\<open>time\<close> is an integer number of milliseconds. An optional field that is absent
  or \<^verbatim>\<open>undefined\<close> is \<open>None\<close>. The field \<^verbatim>\<open>open\<close> is written \<open>openPrice\<close>, since
  \<open>open\<close> is a constant of the library.
\<close>

datatype aiSignalTag = bullish | bearish

record CandleData =
  time :: int
  openPrice :: rat
  high :: rat
  low :: rat
  close :: rat
  volume :: rat
  ema7 :: "rat option"
  ema25 :: "rat option"
  ema99 :: "rat option"
  aiSignal :: "aiSignalTag option"

datatype error = RangeError | TypeError | SyntaxError | NetworkError

definition MAX_CANDLES :: nat where
  "MAX_CANDLES = 120"

subsection \<open>calculateEMA\<close>

text \<open>
  The loop \<^verbatim>\<open>for (let i = period; i < data.length; i++)\<close>: it runs over the closes after
  the first \<open>period\<close> ones, carrying \<open>ema\<close>, and pushes each new value.
\<close>

fun emaLoop :: "rat \<Rightarrow> rat \<Rightarrow> rat list \<Rightarrow> rat option list" where
  "emaLoop k ema [] = []"
| "emaLoop k ema (c # cs) = (let ema' = c * k + ema * (1 - k) in Some ema' # emaLoop k ema' cs)"

text \<open>
  \<^verbatim>\<open>Array(n)\<close> throws a RangeError when \<open>n\<close> is negative; with \<open>period \<le> 0\<close> the length test
  is false (no length is below such a period) and \<^verbatim>\<open>Array(period - 1)\<close> throws.
\<close>

definition calculateEMA :: "CandleData list \<Rightarrow> int \<Rightarrow> error + rat option list" where
  "calculateEMA data period =
    (if int (length data) < period then Inr (replicate (length data) None)
     else
       let k = 2 / (of_int period + 1);
           sum = foldl (\<lambda>s c. s + close c) 0 (take (nat period) data);
           ema = sum / of_int period
       in if period - 1 < 0 then Inl RangeError
          else Inr (replicate (nat (period - 1)) None @ [Some ema]
                    @ emaLoop k ema (map close (drop (nat period) data))))"

subsection \<open>updateCandles and aggregateCandleLocally\<close>

text \<open>
  \<^verbatim>\<open>updated.slice(updated.length - MAX_CANDLES)\<close> under its guard
  \<^verbatim>\<open>updated.length > MAX_CANDLES\<close>: the last \<open>MAX_CANDLES\<close> candles are kept.
\<close>

definition trimWindow :: "CandleData list \<Rightarrow> CandleData list" where
  "trimWindow updated =
    (if length updated > MAX_CANDLES then drop (length updated - MAX_CANDLES) updated
     else updated)"

text \<open>
  The recalculation that ends both mutations: three calls of \<^verbatim>\<open>calculateEMA\<close>, then the
  \<^verbatim>\<open>map\<close> that writes \<^verbatim>\<open>ema7[i]\<close>, \<^verbatim>\<open>ema25[i]\<close>, \<^verbatim>\<open>ema99[i]\<close> onto candle \<open>i\<close>. An index
  past the end of an array reads \<^verbatim>\<open>undefined\<close>.
\<close>

definition arrayAt :: "'a option list \<Rightarrow> nat \<Rightarrow> 'a option" where
  "arrayAt xs i = (if i < length xs then xs ! i else None)"

definition writeEMAs ::
  "rat option list \<Rightarrow> rat option list \<Rightarrow> rat option list \<Rightarrow> CandleData list \<Rightarrow> CandleData list" where
  "writeEMAs e7 e25 e99 updated =
    map (\<lambda>(c, i). c\<lparr>ema7 := arrayAt e7 i, ema25 := arrayAt e25 i, ema99 := arrayAt e99 i\<rparr>)
        (zip updated [0 ..< length updated])"

definition recalculateEMAs :: "CandleData list \<Rightarrow> error + CandleData list" where
  "recalculateEMAs updated =
    (case calculateEMA updated 7 of Inl e \<Rightarrow> Inl e | Inr e7 \<Rightarrow>
     case calculateEMA updated 25 of Inl e \<Rightarrow> Inl e | Inr e25 \<Rightarrow>
     case calculateEMA updated 99 of Inl e \<Rightarrow> Inl e | Inr e99 \<Rightarrow>
       Inr (writeEMAs e7 e25 e99 updated))"

text \<open>
  \<^verbatim>\<open>updateCandles(newCandle)\<close> applied to the previous window \<open>prev\<close>. The last candle is
  \<^verbatim>\<open>undefined\<close> (falsy) when the window is empty.
\<close>

definition updateCandles :: "CandleData \<Rightarrow> CandleData list \<Rightarrow> error + CandleData list" where
  "updateCandles newCandle prev =
    (let updated =
           (if prev \<noteq> [] \<and> time (last prev) = time newCandle
            then butlast prev @ [newCandle\<lparr>aiSignal := aiSignal (last prev)\<rparr>]
            else prev @ [newCandle])
     in recalculateEMAs (trimWindow updated))"

text \<open>
  \<^verbatim>\<open>aggregateCandleLocally(price, time, vol)\<close>; \<^verbatim>\<open>Math.floor(time / 60000) * 60000\<close> on an
  integer time is the floor division of \<open>int\<close>.
\<close>

definition aggregateCandleLocally ::
  "rat \<Rightarrow> int \<Rightarrow> rat \<Rightarrow> CandleData list \<Rightarrow> error + CandleData list" where
  "aggregateCandleLocally price t vol prev =
    (let candleTime = (t div 60000) * 60000;
         updated =
           (if prev \<noteq> [] \<and> time (last prev) = candleTime
            then butlast prev @
                 [(last prev)\<lparr>high := max (high (last prev)) price,
                              low := min (low (last prev)) price,
                              close := price,
                              volume := volume (last prev) + vol / 60\<rparr>]
            else prev @
                 [\<lparr>time = candleTime, openPrice = price, high = price, low = price,
                   close = price, volume = vol / 60,
                   ema7 = None, ema25 = None, ema99 = None, aiSignal = None\<rparr>])
     in recalculateEMAs (trimWindow updated))"

text \<open>
  The candle without its indicator fields: what a mutation decides before the
  recalculation overwrites \<^verbatim>\<open>ema7\<close>, \<^verbatim>\<open>ema25\<close> and \<^verbatim>\<open>ema99\<close> on every candle.
\<close>

definition stripEMA :: "CandleData \<Rightarrow> CandleData" where
  "stripEMA c = c\<lparr>ema7 := None, ema25 := None, ema99 := None\<rparr>"

subsection \<open>Feed events\<close>

text \<open>
  The two message shapes that reach the window: a kline of the primary feed goes to
  \<^verbatim>\<open>updateCandles(candle)\<close>, a ticker of the secondary feed to
  \<^verbatim>\<open>aggregateCandleLocally(price, time, vol)\<close>.
\<close>

datatype feedEvent = Kline CandleData | Ticker rat int rat

fun applyEvent :: "feedEvent \<Rightarrow> CandleData list \<Rightarrow> error + CandleData list" where
  "applyEvent (Kline candle) prev = updateCandles candle prev"
| "applyEvent (Ticker price t vol) prev = aggregateCandleLocally price t vol prev"

fun applyEvents :: "feedEvent list \<Rightarrow> CandleData list \<Rightarrow> error + CandleData list" where
  "applyEvents [] w = Inr w"
| "applyEvents (ev # evs) w =
     (case applyEvent ev w of Inl e \<Rightarrow> Inl e | Inr w' \<Rightarrow> applyEvents evs w')"

fun eventKey :: "feedEvent \<Rightarrow> int" where
  "eventKey (Kline candle) = time candle"
| "eventKey (Ticker price t vol) = (t div 60000) * 60000"

subsection \<open>Latency samples\<close>

text \<open>
  The primary handler: \<^verbatim>\<open>if (data.E) setLatency(now - data.E)\<close>; an absent or zero
  \<^verbatim>\<open>E\<close> is falsy and leaves the gauge alone (\<open>None\<close>). The secondary handler:
  \<^verbatim>\<open>if (data.time) setLatency(Math.max(0, now - serverTime))\<close>, where \<open>serverTime\<close> is
  the parsed \<^verbatim>\<open>data.time\<close> in milliseconds.
\<close>

definition binanceLatency :: "int \<Rightarrow> int option \<Rightarrow> int option" where
  "binanceLatency now E =
    (case E of None \<Rightarrow> None | Some e \<Rightarrow> if e = 0 then None else Some (now - e))"

definition coinbaseLatency :: "int \<Rightarrow> int option \<Rightarrow> int option" where
  "coinbaseLatency now serverTime =
    (case serverTime of None \<Rightarrow> None | Some t \<Rightarrow> Some (max 0 (now - t)))"

section \<open>JavaScript values\<close>

text \<open>
  A JavaScript string is a sequence of UTF-16 code units, and \<^verbatim>\<open>length\<close> counts them.
  The values \<^verbatim>\<open>JSON.parse\<close> can return, with \<^verbatim>\<open>undefined\<close> for an absent property.
  An object lists each of its own properties once.
\<close>

type_synonym jsstring = "16 word list"

datatype jsval =
    JUndefined
  | JNull
  | JBool bool
  | JNum rat
  | JStr jsstring
  | JArr "jsval list"
  | JObj "(jsstring \<times> jsval) list"

fun truthy :: "jsval \<Rightarrow> bool" where
  "truthy JUndefined = False"
| "truthy JNull = False"
| "truthy (JBool b) = b"
| "truthy (JNum n) = (n \<noteq> 0)"
| "truthy (JStr s) = (s \<noteq> [])"
| "truthy (JArr a) = True"
| "truthy (JObj fs) = True"

text \<open>
  Reading a property \<^verbatim>\<open>v.name\<close>, for a name that no built-in prototype defines (the five
  field names of the analysis): a TypeError on \<^verbatim>\<open>null\<close> and \<^verbatim>\<open>undefined\<close>,
  \<^verbatim>\<open>undefined\<close> on a primitive or an array, a lookup on an object.
\<close>

fun getField :: "jsval \<Rightarrow> jsstring \<Rightarrow> error + jsval" where
  "getField JUndefined name = Inl TypeError"
| "getField JNull name = Inl TypeError"
| "getField (JObj fs) name = Inr (case map_of fs name of None \<Rightarrow> JUndefined | Some v \<Rightarrow> v)"
| "getField v name = Inr JUndefined"

text \<open>\<^verbatim>\<open>x || d\<close> with a string literal \<open>d\<close>.\<close>

definition orDefault :: "jsval \<Rightarrow> jsstring \<Rightarrow> jsval" where
  "orDefault x d = (if truthy x then x else JStr d)"

text \<open>\<^verbatim>\<open>String.prototype.includes\<close> with a non-empty literal: some suffix starts with it.\<close>

fun includesStr :: "jsstring \<Rightarrow> jsstring \<Rightarrow> bool" where
  "includesStr [] pat = (pat = [])"
| "includesStr (c # cs) pat = (prefix pat (c # cs) \<or> includesStr cs pat)"

text \<open>
  \<^verbatim>\<open>v.includes(pat)\<close> on a value: the string method, the array method (an element equal
  to the string), and a TypeError where \<^verbatim>\<open>includes\<close> is not a function.
\<close>

fun includesVal :: "jsval \<Rightarrow> jsstring \<Rightarrow> error + bool" where
  "includesVal (JStr s) pat = Inr (includesStr s pat)"
| "includesVal (JArr a) pat = Inr (JStr pat \<in> set a)"
| "includesVal v pat = Inl TypeError"

section \<open>The analysis collaborator wrapper\<close>

subsection \<open>cleanJsonString\<close>

text \<open>\<^verbatim>\<open>str.replace(/lit/g, '')\<close> for a literal: every match, left to right, is dropped.\<close>

function removeAll :: "jsstring \<Rightarrow> jsstring \<Rightarrow> jsstring" where
  "removeAll pat [] = []"
| "removeAll pat (c # cs) =
     (if pat \<noteq> [] \<and> prefix pat (c # cs) then removeAll pat (drop (length pat) (c # cs))
      else c # removeAll pat cs)"
  by pat_completeness auto
termination
  by (relation "measure (\<lambda>(pat, s). length s)") auto

text \<open>The white space and line terminators that \<^verbatim>\<open>trim\<close> strips.\<close>

definition isWhiteSpace :: "16 word \<Rightarrow> bool" where
  "isWhiteSpace c =
    (c \<in> {0x09, 0x0A, 0x0B, 0x0C, 0x0D, 0x20, 0xA0, 0x1680, 0x2028, 0x2029, 0x202F,
           0x205F, 0x3000, 0xFEFF}
     \<or> (0x2000 \<le> c \<and> c \<le> 0x200A))"

definition trim :: "jsstring \<Rightarrow> jsstring" where
  "trim s = rev (dropWhile isWhiteSpace (rev (dropWhile isWhiteSpace s)))"

fun indexOf :: "16 word \<Rightarrow> jsstring \<Rightarrow> int" where
  "indexOf ch [] = - 1"
| "indexOf ch (c # cs) =
     (if c = ch then 0 else (let r = indexOf ch cs in if r = - 1 then - 1 else r + 1))"

definition lastIndexOf :: "16 word \<Rightarrow> jsstring \<Rightarrow> int" where
  "lastIndexOf ch s =
    (let r = indexOf ch (rev s) in if r = - 1 then - 1 else int (length s) - 1 - r)"

text \<open>\<^verbatim>\<open>s.substring(a, b)\<close>: the arguments are clamped to the string and swapped when \<open>a > b\<close>.\<close>

definition substring :: "jsstring \<Rightarrow> int \<Rightarrow> int \<Rightarrow> jsstring" where
  "substring s a b =
    (let n = int (length s);
         a' = min (max a 0) n;
         b' = min (max b 0) n;
         lo = min a' b';
         hi = max a' b'
     in take (nat (hi - lo)) (drop (nat lo) s))"

text \<open>The fence literals: three backquotes followed by \<^verbatim>\<open>json\<close>, and three backquotes.\<close>

definition fenceJson :: jsstring where
  "fenceJson = [0x60, 0x60, 0x60, 0x6A, 0x73, 0x6F, 0x6E]"

definition fence :: jsstring where
  "fence = [0x60, 0x60, 0x60]"

definition cleanJsonString :: "jsstring \<Rightarrow> jsstring" where
  "cleanJsonString str =
    (let cleaned = trim (removeAll fence (removeAll fenceJson str));
         firstBrace = indexOf 0x7B cleaned;
         lastBrace = lastIndexOf 0x7D cleaned
     in if firstBrace \<noteq> - 1 \<and> lastBrace \<noteq> - 1
        then substring cleaned firstBrace (lastBrace + 1)
        else cleaned)"

subsection \<open>String literals\<close>

text \<open>
  The literals of \<^verbatim>\<open>analyzeMarketStrategy\<close> and \<^verbatim>\<open>runAnalysis\<close> as UTF-16 code units.
  \<open>sentimentNeutral\<close> is the two ideographs U+4E2D U+6027 followed by \<^verbatim>\<open> (NEUTRAL)\<close>;
  \<open>sentimentInterference\<close> is U+4FE1 U+53F7 U+5E72 U+6270 (signal interference);
  \<open>textHold\<close> is U+4FDD U+6301 U+89C2 U+671B (keep watching) and \<open>textDisconnected\<close> is
  U+8FDE U+63A5 U+4E2D U+65AD (connection broken), the two fallback lessons;
  \<open>textRetrying\<close> is the reasoning of the catch block (cannot reach the core, retrying the
  link); \<open>textRecalibrating\<close> is the reasoning of the parse fallback.
\<close>

definition sentimentNeutral :: jsstring where
  "sentimentNeutral =
     [0x4E2D, 0x6027, 0x20, 0x28, 0x4E, 0x45, 0x55, 0x54, 0x52, 0x41, 0x4C, 0x29]"

definition sentimentInterference :: jsstring where
  "sentimentInterference = [0x4FE1, 0x53F7, 0x5E72, 0x6270]"

definition textCalculating :: jsstring where
  "textCalculating = [0x8BA1, 0x7B97, 0x4E2D, 0x2E, 0x2E, 0x2E]"

definition textRecalibrating :: jsstring where
  "textRecalibrating =
     [0x795E, 0x7ECF, 0x7F51, 0x7EDC, 0x6B63, 0x5728, 0x91CD, 0x65B0, 0x6821, 0x51C6,
      0x6570, 0x636E, 0x2E, 0x2E, 0x2E]"

definition textHold :: jsstring where
  "textHold = [0x4FDD, 0x6301, 0x89C2, 0x671B]"

definition textObserve :: jsstring where
  "textObserve = [0x89C2, 0x5BDF]"

definition textAbnormal :: jsstring where
  "textAbnormal =
     [0x5E02, 0x573A, 0x6CE2, 0x52A8, 0x5F02, 0x5E38, 0xFF0C, 0x5EFA, 0x8BAE, 0x4FDD,
      0x6301, 0x89C2, 0x671B, 0x3002]"

definition textAccumulating :: jsstring where
  "textAccumulating = [0x6570, 0x636E, 0x79EF, 0x7D2F, 0x4E2D, 0x2E, 0x2E, 0x2E]"

definition textDashes :: jsstring where
  "textDashes = [0x2D, 0x2D, 0x2D]"

definition textRetrying :: jsstring where
  "textRetrying =
     [0x65E0, 0x6CD5, 0x8FDE, 0x63A5, 0x81F3, 0x795E, 0x7ECF, 0x7F51, 0x7EDC, 0x6838,
      0x5FC3, 0xFF0C, 0x6B63, 0x5728, 0x91CD, 0x8BD5, 0x94FE, 0x8DEF, 0x3002]"

definition textDisconnected :: jsstring where
  "textDisconnected = [0x8FDE, 0x63A5, 0x4E2D, 0x65AD]"

text \<open>The keywords of the signal stamp: U+770B U+6DA8 (rise), U+770B U+8DCC (fall), and
  the words \<^verbatim>\<open>BULLISH\<close> and \<^verbatim>\<open>BEARISH\<close>.\<close>

definition kwRise :: jsstring where
  "kwRise = [0x770B, 0x6DA8]"

definition kwFall :: jsstring where
  "kwFall = [0x770B, 0x8DCC]"

definition kwBULLISH :: jsstring where
  "kwBULLISH = [0x42, 0x55, 0x4C, 0x4C, 0x49, 0x53, 0x48]"

definition kwBEARISH :: jsstring where
  "kwBEARISH = [0x42, 0x45, 0x41, 0x52, 0x49, 0x53, 0x48]"

text \<open>The text \<^verbatim>\<open>{}\<close> and the property names.\<close>

definition textEmptyObject :: jsstring where
  "textEmptyObject = [0x7B, 0x7D]"

definition nameSentiment :: jsstring where
  "nameSentiment = [0x73, 0x65, 0x6E, 0x74, 0x69, 0x6D, 0x65, 0x6E, 0x74]"

definition nameEntryPoint :: jsstring where
  "nameEntryPoint = [0x65, 0x6E, 0x74, 0x72, 0x79, 0x50, 0x6F, 0x69, 0x6E, 0x74]"

definition nameExitPoint :: jsstring where
  "nameExitPoint = [0x65, 0x78, 0x69, 0x74, 0x50, 0x6F, 0x69, 0x6E, 0x74]"

definition nameReasoning :: jsstring where
  "nameReasoning = [0x72, 0x65, 0x61, 0x73, 0x6F, 0x6E, 0x69, 0x6E, 0x67]"

definition nameLearningNode :: jsstring where
  "nameLearningNode =
     [0x6C, 0x65, 0x61, 0x72, 0x6E, 0x69, 0x6E, 0x67, 0x4E, 0x6F, 0x64, 0x65]"

definition nameLength :: jsstring where
  "nameLength = [0x6C, 0x65, 0x6E, 0x67, 0x74, 0x68]"

subsection \<open>analyzeMarketStrategy\<close>

text \<open>
  \<^verbatim>\<open>MarketAnalysis\<close>. The interface declares strings, but the fields of a parsed answer
  are whatever \<^verbatim>\<open>JSON.parse\<close> returned, so they are values here.
\<close>

record MarketAnalysis =
  sentiment :: jsval
  entryPoint :: jsval
  exitPoint :: jsval
  reasoning :: jsval
  learningNode :: jsval
  timestamp :: int

text \<open>
  What \<^verbatim>\<open>await ai.models.generateContent(...)\<close> does: it rejects (the collaborator is
  unreachable), or it resolves to a response whose \<^verbatim>\<open>text\<close> is a string or \<^verbatim>\<open>undefined\<close>.
\<close>

datatype generateOutcome = Rejected | Resolved "jsstring option"

definition parseFallback :: "int \<Rightarrow> MarketAnalysis" where
  "parseFallback now =
    \<lparr>sentiment = JStr sentimentNeutral, entryPoint = JStr textCalculating,
     exitPoint = JStr textCalculating, reasoning = JStr textRecalibrating,
     learningNode = JStr textHold, timestamp = now\<rparr>"

definition catchFallback :: "int \<Rightarrow> MarketAnalysis" where
  "catchFallback now =
    \<lparr>sentiment = JStr sentimentInterference, entryPoint = JStr textDashes,
     exitPoint = JStr textDashes, reasoning = JStr textRetrying,
     learningNode = JStr textDisconnected, timestamp = now\<rparr>"

text \<open>\<^verbatim>\<open>response.text || '{}'\<close>: an absent or empty text is replaced.\<close>

definition rawTextOf :: "jsstring option \<Rightarrow> jsstring" where
  "rawTextOf text =
    (case text of None \<Rightarrow> textEmptyObject
     | Some t \<Rightarrow> if t \<noteq> [] then t else textEmptyObject)"

text \<open>
  The body of the outer \<^verbatim>\<open>try\<close>. \<^verbatim>\<open>JSON.parse\<close> is the runtime's: it is the parameter
  \<open>parseJSON\<close>, with \<open>None\<close> where it throws a SyntaxError. \<open>now\<close> is the reading of
  \<^verbatim>\<open>Date.now()\<close>. The inner \<^verbatim>\<open>catch\<close> returns the parse fallback; reading a field of a
  parsed \<^verbatim>\<open>null\<close> throws a TypeError, which leaves the body.
\<close>

definition analyzeBody ::
  "(jsstring \<Rightarrow> jsval option) \<Rightarrow> int \<Rightarrow> generateOutcome \<Rightarrow> error + MarketAnalysis" where
  "analyzeBody parseJSON now outcome =
    (case outcome of
       Rejected \<Rightarrow> Inl NetworkError
     | Resolved text \<Rightarrow>
        let rawText = rawTextOf text;
            cleanedText = cleanJsonString rawText
        in case parseJSON cleanedText of
             None \<Rightarrow> Inr (parseFallback now)
           | Some result \<Rightarrow>
              (case getField result nameSentiment of Inl e \<Rightarrow> Inl e | Inr vSent \<Rightarrow>
               case getField result nameEntryPoint of Inl e \<Rightarrow> Inl e | Inr vEntry \<Rightarrow>
               case getField result nameExitPoint of Inl e \<Rightarrow> Inl e | Inr vExit \<Rightarrow>
               case getField result nameReasoning of Inl e \<Rightarrow> Inl e | Inr vReason \<Rightarrow>
               case getField result nameLearningNode of Inl e \<Rightarrow> Inl e | Inr vLesson \<Rightarrow>
                 Inr \<lparr>sentiment = orDefault vSent sentimentNeutral,
                      entryPoint = orDefault vEntry textObserve,
                      exitPoint = orDefault vExit textObserve,
                      reasoning = orDefault vReason textAbnormal,
                      learningNode = orDefault vLesson textAccumulating,
                      timestamp = now\<rparr>))"

text \<open>
  The function with its outer \<^verbatim>\<open>catch\<close>. The result is the settled promise: \<open>Inl\<close> would
  be a rejection reaching the caller.
\<close>

definition analyzeMarketStrategy ::
  "(jsstring \<Rightarrow> jsval option) \<Rightarrow> int \<Rightarrow> generateOutcome \<Rightarrow> error + MarketAnalysis" where
  "analyzeMarketStrategy parseJSON now outcome =
    (case analyzeBody parseJSON now outcome of
       Inl e \<Rightarrow> Inr (catchFallback now)
     | Inr r \<Rightarrow> Inr r)"

section \<open>The analysis cycle\<close>

subsection \<open>The signal stamp and the lesson\<close>

text \<open>
  The classification inside the updater of \<^verbatim>\<open>runAnalysis\<close>; \<^verbatim>\<open>||\<close> does not evaluate
  its right operand when the left one is true.
\<close>

definition signalOf :: "jsval \<Rightarrow> error + aiSignalTag option" where
  "signalOf s =
    (case includesVal s kwRise of Inl e \<Rightarrow> Inl e | Inr r1 \<Rightarrow>
     case (if r1 then Inr True else includesVal s kwBULLISH) of Inl e \<Rightarrow> Inl e | Inr up \<Rightarrow>
       if up then Inr (Some bullish)
       else
        (case includesVal s kwFall of Inl e \<Rightarrow> Inl e | Inr r2 \<Rightarrow>
         case (if r2 then Inr True else includesVal s kwBEARISH) of Inl e \<Rightarrow> Inl e
         | Inr down \<Rightarrow> if down then Inr (Some bearish) else Inr None))"

text \<open>
  The updater \<^verbatim>\<open>prev => { ... updated[lastIdx] = { ...updated[lastIdx], aiSignal: signal } ... }\<close>:
  nothing is read of the sentiment when the window is empty, and only a recognised signal
  is written, onto the last candle.
\<close>

definition stampSignal :: "jsval \<Rightarrow> CandleData list \<Rightarrow> error + CandleData list" where
  "stampSignal s prev =
    (if prev = [] then Inr prev
     else case signalOf s of
            Inl e \<Rightarrow> Inl e
          | Inr None \<Rightarrow> Inr prev
          | Inr (Some signal) \<Rightarrow> Inr (butlast prev @ [(last prev)\<lparr>aiSignal := Some signal\<rparr>]))"

text \<open>
  \<^verbatim>\<open>v.length\<close> of a truthy value, and \<^verbatim>\<open>x > c\<close> against a number. The conversion of a
  string or an object to a number is the runtime's: the parameter \<open>toNumber\<close>, with
  \<open>Inr None\<close> for NaN and \<open>Inl\<close> where the conversion throws.
\<close>

fun lengthOf :: "jsval \<Rightarrow> jsval" where
  "lengthOf (JStr s) = JNum (of_nat (length s))"
| "lengthOf (JArr a) = JNum (of_nat (length a))"
| "lengthOf (JObj fs) = (case map_of fs nameLength of None \<Rightarrow> JUndefined | Some v \<Rightarrow> v)"
| "lengthOf v = JUndefined"

fun greaterThan :: "(jsval \<Rightarrow> error + rat option) \<Rightarrow> jsval \<Rightarrow> rat \<Rightarrow> error + bool" where
  "greaterThan toNumber (JNum n) c = Inr (n > c)"
| "greaterThan toNumber JUndefined c = Inr False"
| "greaterThan toNumber JNull c = Inr (0 > c)"
| "greaterThan toNumber (JBool b) c = Inr ((if b then 1 else 0) > c)"
| "greaterThan toNumber v c =
     (case toNumber v of Inl e \<Rightarrow> Inl e | Inr None \<Rightarrow> Inr False | Inr (Some n) \<Rightarrow> Inr (n > c))"

text \<open>\<^verbatim>\<open>result.learningNode && result.learningNode.length > 5\<close>.\<close>

definition lessonWorthKeeping :: "(jsval \<Rightarrow> error + rat option) \<Rightarrow> jsval \<Rightarrow> error + bool" where
  "lessonWorthKeeping toNumber lesson =
    (if truthy lesson then greaterThan toNumber (lengthOf lesson) 5 else Inr False)"

text \<open>\<^verbatim>\<open>[...prev, result.learningNode].slice(-20)\<close>.\<close>

definition appendMemory :: "jsval \<Rightarrow> jsval list \<Rightarrow> jsval list" where
  "appendMemory lesson prev =
    (let newMemory = prev @ [lesson] in drop (length newMemory - 20) newMemory)"

subsection \<open>The component state\<close>

datatype SystemState = IDLE | ANALYZING | PROCESSING | SCANNING | CONNECTING | ERROR

record NewsItem =
  title :: jsstring
  url :: jsstring
  source :: jsstring

record Hotspots =
  summary :: jsstring
  news :: "NewsItem list"

text \<open>
  An invocation of \<^verbatim>\<open>runAnalysis\<close> that has not finished is suspended at one of its two
  \<^verbatim>\<open>await\<close>s.
\<close>

datatype frame = AwaitAnalysis | AwaitHotspots

text \<open>
  The state of \<^verbatim>\<open>App\<close> that the cycle reads and writes, the ref
  \<^verbatim>\<open>analysisInProgressRef.current\<close>, and the suspended invocations of \<^verbatim>\<open>runAnalysis\<close>.
  The refs that mirror \<^verbatim>\<open>candleData\<close> and \<^verbatim>\<open>currentPrice\<close> are taken as synchronised.
  An exception thrown by a state updater is raised by React when it renders, outside the
  code of the cycle; \<open>updaterFault\<close> records it and the state keeps its old value. The
  chat messages are not modelled.
\<close>

record App =
  candleData :: "CandleData list"
  currentPrice :: rat
  systemState :: SystemState
  analysis :: "MarketAnalysis option"
  hotspots :: Hotspots
  memoryStream :: "jsval list"
  isLearning :: bool
  analysisInProgress :: bool
  suspended :: "frame list"
  updaterFault :: bool

definition initialApp :: "jsval list \<Rightarrow> App" where
  "initialApp savedMemory =
    \<lparr>candleData = [], currentPrice = 0, systemState = CONNECTING, analysis = None,
     hotspots = \<lparr>summary = [], news = []\<rparr>, memoryStream = savedMemory,
     isLearning = False, analysisInProgress = False, suspended = [], updaterFault = False\<rparr>"

subsection \<open>runAnalysis\<close>

text \<open>
  A call of \<^verbatim>\<open>runAnalysis()\<close> up to its first \<^verbatim>\<open>await\<close>: the guard returns at once, or
  the flag is taken and the invocation is suspended on \<^verbatim>\<open>analyzeMarketStrategy\<close>.
\<close>

definition runAnalysis :: "App \<Rightarrow> App" where
  "runAnalysis s =
    (if analysisInProgress s \<or> length (candleData s) < 10 then s
     else s\<lparr>analysisInProgress := True, systemState := ANALYZING, isLearning := True,
            suspended := suspended s @ [AwaitAnalysis]\<rparr>)"

text \<open>The \<^verbatim>\<open>finally\<close> block.\<close>

definition finallyBlock :: "App \<Rightarrow> App" where
  "finallyBlock s = s\<lparr>systemState := IDLE, isLearning := False, analysisInProgress := False\<rparr>"

text \<open>
  The invocation resumes when \<^verbatim>\<open>analyzeMarketStrategy\<close> settles with \<open>r\<close>. A rejection
  or an exception in the steps goes to the \<^verbatim>\<open>catch\<close>, which logs, and then to the
  \<^verbatim>\<open>finally\<close>; otherwise the invocation is suspended again on \<^verbatim>\<open>fetchMarketHotspots\<close>.
\<close>

definition resumeAnalysis ::
  "(jsval \<Rightarrow> error + rat option) \<Rightarrow> error + MarketAnalysis \<Rightarrow> App \<Rightarrow> App" where
  "resumeAnalysis toNumber r s =
    (let rest = remove1 AwaitAnalysis (suspended s)
     in case r of
          Inl e \<Rightarrow> finallyBlock (s\<lparr>suspended := rest\<rparr>)
        | Inr result \<Rightarrow>
           let s1 = s\<lparr>analysis := Some result\<rparr>;
               s2 = (case stampSignal (sentiment result) (candleData s1) of
                       Inl e \<Rightarrow> s1\<lparr>updaterFault := True\<rparr>
                     | Inr w \<Rightarrow> s1\<lparr>candleData := w\<rparr>)
           in case lessonWorthKeeping toNumber (learningNode result) of
                Inl e \<Rightarrow> finallyBlock (s2\<lparr>suspended := rest\<rparr>)
              | Inr keep \<Rightarrow>
                 (let s3 = (if keep
                            then s2\<lparr>memoryStream :=
                                      appendMemory (learningNode result) (memoryStream s2)\<rparr>
                            else s2)
                  in s3\<lparr>systemState := SCANNING, suspended := rest @ [AwaitHotspots]\<rparr>))"

text \<open>
  The invocation resumes when \<^verbatim>\<open>fetchMarketHotspots\<close> settles: with a value, which is
  stored, or with a rejection (\<open>None\<close>); the \<^verbatim>\<open>finally\<close> block runs in both cases.
\<close>

definition resumeHotspots :: "Hotspots option \<Rightarrow> App \<Rightarrow> App" where
  "resumeHotspots r s =
    (let rest = remove1 AwaitHotspots (suspended s)
     in case r of
          None \<Rightarrow> finallyBlock (s\<lparr>suspended := rest\<rparr>)
        | Some newsResult \<Rightarrow> finallyBlock (s\<lparr>hotspots := newsResult, suspended := rest\<rparr>))"

subsection \<open>The startup trigger and the events of the component\<close>

text \<open>
  \<^verbatim>\<open>useEffect(() => { if (!analysis && candleData.length > 10) runAnalysis(); }, [candleData.length])\<close>:
  the effect runs after a render in which the length of the window has changed.
\<close>

definition startupEffect :: "nat \<Rightarrow> App \<Rightarrow> App" where
  "startupEffect previousLength s =
    (if length (candleData s) \<noteq> previousLength
     then (if analysis s = None \<and> length (candleData s) > 10 then runAnalysis s else s)
     else s)"

text \<open>
  A feed message: the price cursor and the window are updated, then the effect runs. The
  kline handler publishes the close of the candle, the ticker handler the tick's price.
\<close>

fun eventPrice :: "feedEvent \<Rightarrow> rat" where
  "eventPrice (Kline candle) = close candle"
| "eventPrice (Ticker price t vol) = price"

definition onFeed :: "feedEvent \<Rightarrow> App \<Rightarrow> App" where
  "onFeed ev s =
    (case applyEvent ev (candleData s) of
       Inl e \<Rightarrow> s\<lparr>currentPrice := eventPrice ev, updaterFault := True\<rparr>
     | Inr w \<Rightarrow> startupEffect (length (candleData s))
                 (s\<lparr>currentPrice := eventPrice ev, candleData := w\<rparr>))"

text \<open>
  What can happen to the component: a trigger calls \<^verbatim>\<open>runAnalysis()\<close> (the interval timer
  or a click; the startup trigger is part of \<open>onFeed\<close>), a feed message arrives, or one of
  the two awaited calls settles. A settlement with no invocation waiting for it does
  nothing.
\<close>

datatype event =
    Trigger
  | Feed feedEvent
  | AnalysisSettled generateOutcome int
  | HotspotsSettled "Hotspots option"

fun step ::
  "(jsstring \<Rightarrow> jsval option) \<Rightarrow> (jsval \<Rightarrow> error + rat option) \<Rightarrow> event \<Rightarrow> App \<Rightarrow> App" where
  "step parseJSON toNumber Trigger s = runAnalysis s"
| "step parseJSON toNumber (Feed ev) s = onFeed ev s"
| "step parseJSON toNumber (AnalysisSettled outcome now) s =
     (if AwaitAnalysis \<in> set (suspended s)
      then resumeAnalysis toNumber (analyzeMarketStrategy parseJSON now outcome) s
      else s)"
| "step parseJSON toNumber (HotspotsSettled r) s =
     (if AwaitHotspots \<in> set (suspended s) then resumeHotspots r s else s)"

fun steps ::
  "(jsstring \<Rightarrow> jsval option) \<Rightarrow> (jsval \<Rightarrow> error + rat option) \<Rightarrow> event list \<Rightarrow> App \<Rightarrow> App" where
  "steps parseJSON toNumber [] s = s"
| "steps parseJSON toNumber (e # es) s = steps parseJSON toNumber es (step parseJSON toNumber e s)"


section \<open>Sample inputs\<close>

text \<open>A candle whose four prices are \<open>p\<close>, with volume 1, and a window of 120 such candles
  one minute apart.\<close>

definition flatCandle :: "int \<Rightarrow> rat \<Rightarrow> CandleData" where
  "flatCandle t p =
    \<lparr>time = t, openPrice = p, high = p, low = p, close = p, volume = 1,
     ema7 = None, ema25 = None, ema99 = None, aiSignal = None\<rparr>"

definition fullWindow :: "CandleData list" where
  "fullWindow = map (\<lambda>i. flatCandle (60000 * int i) 100) [0 ..< 120]"

text \<open>
  A stand-in for \<^verbatim>\<open>JSON.parse\<close> that knows three texts (\<^verbatim>\<open>{}\<close>, \<^verbatim>\<open>null\<close>, and one that
  stands for an answer with a lesson and a bearish sentiment), and a stand-in for the
  number conversion that always gives NaN.
\<close>

definition stubParse :: "jsstring \<Rightarrow> jsval option" where
  "stubParse s =
    (if s = textEmptyObject then Some (JObj [])
     else if s = [0x6E, 0x75, 0x6C, 0x6C] then Some JNull
     else if s = [0x7B, 0x7D, 0x7D] then Some (JObj [(nameLearningNode, JStr textAbnormal), (nameSentiment, JStr kwBEARISH)])
     else None)"

definition stubToNumber :: "jsval \<Rightarrow> error + rat option" where
  "stubToNumber v = Inr None"

text \<open>
  A component with ten candles and no analysis yet, the same component after a call of
  \<^verbatim>\<open>runAnalysis\<close>, and ten klines one minute apart.
\<close>

definition readyApp :: App where
  "readyApp = (initialApp [])\<lparr>candleData := map (\<lambda>i. flatCandle (60000 * int i) 100) [0 ..< 10]\<rparr>"

definition waitingApp :: App where
  "waitingApp = runAnalysis readyApp"

definition tenKlines :: "event list" where
  "tenKlines =
    [Feed (Kline (flatCandle 0 100)),
     Feed (Kline (flatCandle 60000 100)),
     Feed (Kline (flatCandle 120000 100)),
     Feed (Kline (flatCandle 180000 100)),
     Feed (Kline (flatCandle 240000 100)),
     Feed (Kline (flatCandle 300000 100)),
     Feed (Kline (flatCandle 360000 100)),
     Feed (Kline (flatCandle 420000 100)),
     Feed (Kline (flatCandle 480000 100)),
     Feed (Kline (flatCandle 540000 100))]"

section \<open>Properties of the rolling window\<close>

subsection \<open>Helper facts about the window\<close>

lemma length_emaLoop: "length (emaLoop k e cs) = length cs"
  by (induction cs arbitrary: e) (simp_all add: Let_def)

lemma calculateEMA_total:
  assumes "1 \<le> p"
  shows "\<exists>out. calculateEMA xs p = Inr out \<and> length out = length xs"
proof (cases "int (length xs) < p")
  case True
  then show ?thesis by (simp add: calculateEMA_def)
next
  case False
  with assms have "nat (p - 1) + 1 + (length xs - nat p) = length xs" by linarith
  with False assms show ?thesis
    by (simp add: calculateEMA_def Let_def length_emaLoop)
qed

lemma map_stripEMA_writeEMAs: "map stripEMA (writeEMAs a b c u) = map stripEMA u"
  by (rule nth_equalityI) (simp_all add: writeEMAs_def stripEMA_def)

lemma recalculateEMAs_total:
  "\<exists>u'. recalculateEMAs u = Inr u' \<and> map stripEMA u' = map stripEMA u"
proof -
  obtain e7 where e7: "calculateEMA u 7 = Inr e7" using calculateEMA_total[of 7 u] by auto
  obtain e25 where e25: "calculateEMA u 25 = Inr e25" using calculateEMA_total[of 25 u] by auto
  obtain e99 where e99: "calculateEMA u 99 = Inr e99" using calculateEMA_total[of 99 u] by auto
  show ?thesis by (simp add: recalculateEMAs_def e7 e25 e99 map_stripEMA_writeEMAs)
qed

lemma length_trimWindow: "length (trimWindow u) \<le> MAX_CANDLES"
  by (simp add: trimWindow_def)

lemma trimWindow_small: "length u \<le> MAX_CANDLES \<Longrightarrow> trimWindow u = u"
  by (simp add: trimWindow_def)

lemma trimWindow_nonempty: "u \<noteq> [] \<Longrightarrow> trimWindow u \<noteq> []"
  by (auto simp add: trimWindow_def MAX_CANDLES_def)

lemma last_trimWindow: "u \<noteq> [] \<Longrightarrow> last (trimWindow u) = last u"
  by (simp add: trimWindow_def MAX_CANDLES_def last_drop)

lemma butlast_trimWindow_subset: "set (butlast (trimWindow u)) \<subseteq> set (butlast u)"
  by (auto simp add: trimWindow_def butlast_drop dest: in_set_dropD)

lemma trimWindow_full: "length w = MAX_CANDLES \<Longrightarrow> trimWindow (w @ [c]) = tl w @ [c]"
  by (cases w) (simp_all add: trimWindow_def MAX_CANDLES_def)

lemma stripEMA_sel:
  "time (stripEMA c) = time c" "openPrice (stripEMA c) = openPrice c"
  "high (stripEMA c) = high c" "low (stripEMA c) = low c" "close (stripEMA c) = close c"
  "volume (stripEMA c) = volume c" "aiSignal (stripEMA c) = aiSignal c"
  by (simp_all add: stripEMA_def)

lemma stripEMA_eqD:
  assumes "stripEMA a = stripEMA b"
  shows "time a = time b" "openPrice a = openPrice b" "high a = high b" "low a = low b"
    "close a = close b" "volume a = volume b" "aiSignal a = aiSignal b"
  using assms stripEMA_sel by metis+

lemma strip_same_length: "map stripEMA a = map stripEMA b \<Longrightarrow> length a = length b"
  using map_eq_imp_length_eq by blast

lemma strip_same_times: "map stripEMA a = map stripEMA b \<Longrightarrow> map time a = map time b"
proof -
  assume e: "map stripEMA a = map stripEMA b"
  have "map time a = map time (map stripEMA a)" by (simp add: stripEMA_sel)
  also have "\<dots> = map time (map stripEMA b)" by (simp only: e)
  also have "\<dots> = map time b" by (simp add: stripEMA_sel)
  finally show ?thesis .
qed

lemma strip_same_last:
  assumes e: "map stripEMA a = map stripEMA b" and ne: "b \<noteq> []"
  shows "a \<noteq> [] \<and> stripEMA (last a) = stripEMA (last b)"
proof -
  from e ne have na: "a \<noteq> []" by auto
  have "stripEMA (last a) = last (map stripEMA a)" using na by (simp add: last_map)
  also have "\<dots> = last (map stripEMA b)" by (simp only: e)
  also have "\<dots> = stripEMA (last b)" using ne by (simp add: last_map)
  finally show ?thesis using na by simp
qed

lemma updateCandles_Inr:
  "\<exists>w'. updateCandles c w = Inr w' \<and>
        map stripEMA w' =
          map stripEMA (trimWindow (if w \<noteq> [] \<and> time (last w) = time c
                                    then butlast w @ [c\<lparr>aiSignal := aiSignal (last w)\<rparr>]
                                    else w @ [c]))"
  unfolding updateCandles_def Let_def by (rule recalculateEMAs_total)

lemma aggregateCandleLocally_Inr:
  "\<exists>w'. aggregateCandleLocally price t vol w = Inr w' \<and>
        map stripEMA w' =
          map stripEMA (trimWindow
            (if w \<noteq> [] \<and> time (last w) = (t div 60000) * 60000
             then butlast w @
                  [(last w)\<lparr>high := max (high (last w)) price, low := min (low (last w)) price,
                            close := price, volume := volume (last w) + vol / 60\<rparr>]
             else w @
                  [\<lparr>time = (t div 60000) * 60000, openPrice = price, high = price, low = price,
                    close = price, volume = vol / 60,
                    ema7 = None, ema25 = None, ema99 = None, aiSignal = None\<rparr>]))"
  unfolding aggregateCandleLocally_def Let_def by (rule recalculateEMAs_total)

lemma applyEvent_bound: "\<exists>w'. applyEvent ev w = Inr w' \<and> length w' \<le> MAX_CANDLES"
proof (cases ev)
  case (Kline c)
  from updateCandles_Inr[of c w] obtain w' where
    a: "updateCandles c w = Inr w'" and
    b: "map stripEMA w' = map stripEMA (trimWindow (if w \<noteq> [] \<and> time (last w) = time c
          then butlast w @ [c\<lparr>aiSignal := aiSignal (last w)\<rparr>] else w @ [c]))"
    by blast
  from strip_same_length[OF b] have "length w' \<le> MAX_CANDLES" by (simp add: length_trimWindow)
  with a Kline show ?thesis by simp
next
  case (Ticker price t vol)
  from aggregateCandleLocally_Inr[of price t vol w] obtain w' where
    a: "aggregateCandleLocally price t vol w = Inr w'" and
    b: "length w' = length (trimWindow
            (if w \<noteq> [] \<and> time (last w) = (t div 60000) * 60000
             then butlast w @
                  [(last w)\<lparr>high := max (high (last w)) price, low := min (low (last w)) price,
                            close := price, volume := volume (last w) + vol / 60\<rparr>]
             else w @
                  [\<lparr>time = (t div 60000) * 60000, openPrice = price, high = price, low = price,
                    close = price, volume = vol / 60,
                    ema7 = None, ema25 = None, ema99 = None, aiSignal = None\<rparr>]))"
    using strip_same_length by blast
  have "length w' \<le> MAX_CANDLES" unfolding b by (rule length_trimWindow)
  with a Ticker show ?thesis by simp
qed

lemma applyEvents_bound:
  "evs \<noteq> [] \<Longrightarrow> \<exists>w'. applyEvents evs w = Inr w' \<and> length w' \<le> MAX_CANDLES"
proof (induction evs arbitrary: w)
  case Nil
  then show ?case by simp
next
  case (Cons ev evs)
  from applyEvent_bound[of ev w] obtain w1 where
    w1: "applyEvent ev w = Inr w1" "length w1 \<le> MAX_CANDLES" by blast
  show ?case
  proof (cases "evs = []")
    case True
    with w1 show ?thesis by simp
  next
    case False
    from Cons.IH[OF False, of w1] w1 show ?thesis by simp
  qed
qed

subsection \<open>The moving average\<close>








text \<open>
  Claim C3: \<open>MAX_CANDLES\<close> is 120; from any window, after each call of a sequence of
  \<open>updateCandles\<close> and \<open>aggregateCandleLocally\<close> calls the window holds at most
  \<open>MAX_CANDLES\<close> candles; and an append to a window of exactly \<open>MAX_CANDLES\<close> candles
  drops the oldest candle and keeps the others in order, followed by the new one.
\<close>
theorem window_bounded_fifo:
  "MAX_CANDLES = 120 \<and>
   (\<forall>n. 0 < n \<and> n \<le> length evs \<longrightarrow>
      (\<exists>w'. applyEvents (take n evs) w = Inr w' \<and> length w' \<le> MAX_CANDLES)) \<and>
   (length w = MAX_CANDLES \<and> time (last w) \<noteq> time c \<longrightarrow>
      (\<exists>w'. updateCandles c w = Inr w' \<and> map stripEMA w' = map stripEMA (tl w @ [c]))) \<and>
   (length w = MAX_CANDLES \<and> time (last w) \<noteq> (t div 60000) * 60000 \<longrightarrow>
      (\<exists>w'. aggregateCandleLocally price t vol w = Inr w' \<and>
         map stripEMA w' =
           map stripEMA (tl w @
             [\<lparr>time = (t div 60000) * 60000, openPrice = price, high = price, low = price,
               close = price, volume = vol / 60,
               ema7 = None, ema25 = None, ema99 = None, aiSignal = None\<rparr>])))"
proof (intro conjI allI impI)
  show "MAX_CANDLES = 120" by (simp add: MAX_CANDLES_def)
next
  fix n assume "0 < n \<and> n \<le> length evs"
  then have "take n evs \<noteq> []" by auto
  then show "\<exists>w'. applyEvents (take n evs) w = Inr w' \<and> length w' \<le> MAX_CANDLES"
    by (rule applyEvents_bound)
next
  assume a: "length w = MAX_CANDLES \<and> time (last w) \<noteq> time c"
  then have "trimWindow (w @ [c]) = tl w @ [c]" by (simp add: trimWindow_full)
  with a updateCandles_Inr[of c w]
  show "\<exists>w'. updateCandles c w = Inr w' \<and> map stripEMA w' = map stripEMA (tl w @ [c])"
    by simp
next
  assume a: "length w = MAX_CANDLES \<and> time (last w) \<noteq> (t div 60000) * 60000"
  let ?fresh = "\<lparr>time = (t div 60000) * 60000, openPrice = price, high = price, low = price,
               close = price, volume = vol / 60,
               ema7 = None, ema25 = None, ema99 = None, aiSignal = None\<rparr>"
  from a have "trimWindow (w @ [?fresh]) = tl w @ [?fresh]" by (simp add: trimWindow_full)
  with a aggregateCandleLocally_Inr[of price t vol w]
  show "\<exists>w'. aggregateCandleLocally price t vol w = Inr w' \<and>
         map stripEMA w' = map stripEMA (tl w @ [?fresh])"
    by simp
qed

subsection \<open>Keys\<close>

lemma strict_le_last:
  fixes xs :: "int list"
  shows "sorted_wrt (<) xs \<Longrightarrow> x \<in> set xs \<Longrightarrow> x \<le> last xs"
proof (induction xs)
  case Nil
  then show ?case by simp
next
  case (Cons a xs)
  show ?case
  proof (cases "xs = []")
    case True
    with Cons.prems show ?thesis by simp
  next
    case False
    then have l: "last xs \<in> set xs" by simp
    show ?thesis
    proof (cases "x = a")
      case True
      with Cons.prems(1) l have "x < last xs" by auto
      with False show ?thesis by simp
    next
      case neq: False
      with Cons.prems have "x \<in> set xs" "sorted_wrt (<) xs" by auto
      with Cons.IH False show ?thesis by simp
    qed
  qed
qed

lemma place_sorted:
  assumes s: "sorted_wrt (<) (map time w)"
    and le: "w \<noteq> [] \<longrightarrow> time (last w) \<le> k"
    and x: "time x = k" and y: "time y = k"
  shows "sorted_wrt (<) (map time (if w \<noteq> [] \<and> time (last w) = k then butlast w @ [x] else w @ [y]))"
proof (cases "w \<noteq> [] \<and> time (last w) = k")
  case True
  then have "map time (butlast w @ [x]) = map time (butlast w) @ [time (last w)]"
    using x by simp
  also have "\<dots> = map time (butlast w @ [last w])" by simp
  also have "\<dots> = map time w" using True by simp
  finally show ?thesis using True s by simp
next
  case False
  have "\<forall>t \<in> set (map time w). t < k"
  proof
    fix t assume t: "t \<in> set (map time w)"
    then have ne: "w \<noteq> []" by auto
    from strict_le_last[OF s t] have "t \<le> time (last w)" using ne by (simp add: last_map)
    moreover from False ne le have "time (last w) < k" by auto
    ultimately show "t < k" by simp
  qed
  then have "sorted_wrt (<) (map time w @ [k])" using s by (simp add: sorted_wrt_append)
  then show ?thesis using False y by auto
qed

lemma times_trimWindow_sorted:
  "sorted_wrt (<) (map time u) \<Longrightarrow> sorted_wrt (<) (map time (trimWindow u))"
  by (simp add: trimWindow_def drop_map[symmetric] sorted_wrt_drop)

lemma applyEvent_keys:
  assumes s: "sorted_wrt (<) (map time w)" and le: "w \<noteq> [] \<longrightarrow> time (last w) \<le> eventKey ev"
  shows "\<exists>w'. applyEvent ev w = Inr w' \<and> sorted_wrt (<) (map time w') \<and>
              w' \<noteq> [] \<and> time (last w') = eventKey ev"
proof (cases ev)
  case (Kline c)
  let ?u = "if w \<noteq> [] \<and> time (last w) = time c
            then butlast w @ [c\<lparr>aiSignal := aiSignal (last w)\<rparr>] else w @ [c]"
  from updateCandles_Inr[of c w] obtain w' where
    a: "updateCandles c w = Inr w'" and b: "map stripEMA w' = map stripEMA (trimWindow ?u)"
    by blast
  have une: "?u \<noteq> []" and ulast: "time (last ?u) = time c" by auto
  have "sorted_wrt (<) (map time ?u)"
    using place_sorted[OF s, of "time c" "c\<lparr>aiSignal := aiSignal (last w)\<rparr>" c] le Kline by simp
  then have "sorted_wrt (<) (map time (trimWindow ?u))" by (rule times_trimWindow_sorted)
  then have c1: "sorted_wrt (<) (map time w')" using strip_same_times[OF b] by simp
  from strip_same_last[OF b trimWindow_nonempty[OF une]]
  have c2: "w' \<noteq> []" and "stripEMA (last w') = stripEMA (last (trimWindow ?u))" by simp_all
  then have "time (last w') = time (last (trimWindow ?u))" by (rule_tac stripEMA_eqD(1))
  then have c3: "time (last w') = time c" using last_trimWindow[OF une] ulast by simp
  show ?thesis using a c1 c2 c3 Kline by simp
next
  case (Ticker price t vol)
  let ?k = "(t div 60000) * 60000"
  let ?x = "(last w)\<lparr>high := max (high (last w)) price, low := min (low (last w)) price,
                            close := price, volume := volume (last w) + vol / 60\<rparr>"
  let ?y = "\<lparr>time = ?k, openPrice = price, high = price, low = price,
                    close = price, volume = vol / 60,
                    ema7 = None, ema25 = None, ema99 = None, aiSignal = None\<rparr>"
  let ?u = "if w \<noteq> [] \<and> time (last w) = ?k then butlast w @ [?x] else w @ [?y]"
  from aggregateCandleLocally_Inr[of price t vol w] obtain w' where
    a: "aggregateCandleLocally price t vol w = Inr w'" and
    b: "map stripEMA w' = map stripEMA (trimWindow ?u)"
    by blast
  have une: "?u \<noteq> []" and ulast: "time (last ?u) = ?k" by auto
  have "sorted_wrt (<) (map time ?u)"
  proof (cases "w \<noteq> [] \<and> time (last w) = ?k")
    case True
    then have tx: "time ?x = ?k" by simp
    from place_sorted[OF s _ tx, of ?y] le Ticker True show ?thesis by simp
  next
    case False
    have ty: "time ?y = ?k" by simp
    from place_sorted[OF s _ ty ty] le Ticker False show ?thesis by auto
  qed
  then have "sorted_wrt (<) (map time (trimWindow ?u))" by (rule times_trimWindow_sorted)
  then have c1: "sorted_wrt (<) (map time w')" using strip_same_times[OF b] by simp
  from strip_same_last[OF b trimWindow_nonempty[OF une]]
  have c2: "w' \<noteq> []" and "stripEMA (last w') = stripEMA (last (trimWindow ?u))" by simp_all
  then have "time (last w') = time (last (trimWindow ?u))" by (rule_tac stripEMA_eqD(1))
  then have c3: "time (last w') = ?k" using last_trimWindow[OF une] ulast by simp
  show ?thesis using a c1 c2 c3 Ticker by simp
qed

lemma applyEvents_keys:
  assumes "sorted_wrt (<) (map time w)" and "sorted (map eventKey evs)"
    and "w \<noteq> [] \<longrightarrow> evs \<noteq> [] \<longrightarrow> time (last w) \<le> eventKey (hd evs)"
  shows "\<exists>w'. applyEvents evs w = Inr w' \<and> sorted_wrt (<) (map time w')"
  using assms
proof (induction evs arbitrary: w)
  case Nil
  then show ?case by simp
next
  case (Cons ev evs)
  from Cons.prems have le: "w \<noteq> [] \<longrightarrow> time (last w) \<le> eventKey ev" by simp
  from applyEvent_keys[OF Cons.prems(1) le] obtain w1 where
    w1: "applyEvent ev w = Inr w1" "sorted_wrt (<) (map time w1)" "w1 \<noteq> []"
        "time (last w1) = eventKey ev" by blast
  from Cons.prems(2) have srt: "sorted (map eventKey evs)" by simp
  from Cons.prems(2) have "evs \<noteq> [] \<longrightarrow> eventKey ev \<le> eventKey (hd evs)"
    by (cases evs) simp_all
  with w1 have "w1 \<noteq> [] \<longrightarrow> evs \<noteq> [] \<longrightarrow> time (last w1) \<le> eventKey (hd evs)" by simp
  from Cons.IH[OF w1(2) srt this] w1(1) show ?case by simp
qed

text \<open>
  Claim C9, for events that arrive in key order: when the keys of the window are strictly
  increasing, the keys of the incoming events (the \<open>time\<close> of a candle, the bucket of a
  tick) are non-decreasing and the first is not below the last key of the window, then the
  keys of the window are strictly increasing after every call.
\<close>
theorem keys_strictly_increasing_in_order:
  assumes "sorted_wrt (<) (map time w)" and "sorted (map eventKey evs)"
    and "w \<noteq> [] \<longrightarrow> evs \<noteq> [] \<longrightarrow> time (last w) \<le> eventKey (hd evs)"
  shows "\<forall>n. n \<le> length evs \<longrightarrow>
           (\<exists>w'. applyEvents (take n evs) w = Inr w' \<and> sorted_wrt (<) (map time w'))"
proof (intro allI impI)
  fix n assume n: "n \<le> length evs"
  have a: "sorted (map eventKey (take n evs))"
    using assms(2) by (simp add: take_map[symmetric] sorted_wrt_take)
  have b: "w \<noteq> [] \<longrightarrow> take n evs \<noteq> [] \<longrightarrow> time (last w) \<le> eventKey (hd (take n evs))"
    using assms(3) by (cases n; cases evs) simp_all
  show "\<exists>w'. applyEvents (take n evs) w = Inr w' \<and> sorted_wrt (<) (map time w')"
    using applyEvents_keys[OF assms(1) a b] .
qed

lemma length_trimWindow_min: "length (trimWindow u) = min (length u) MAX_CANDLES"
  by (auto simp add: trimWindow_def)

lemma updateCandles_replace:
  assumes "w \<noteq> []" and "time (last w) = time c"
  shows "\<exists>w'. updateCandles c w = Inr w' \<and> w' \<noteq> [] \<and>
           stripEMA (last w') = stripEMA (c\<lparr>aiSignal := aiSignal (last w)\<rparr>) \<and>
           map stripEMA w' =
             map stripEMA (trimWindow (butlast w @ [c\<lparr>aiSignal := aiSignal (last w)\<rparr>]))"
proof -
  let ?u = "butlast w @ [c\<lparr>aiSignal := aiSignal (last w)\<rparr>]"
  from updateCandles_Inr[of c w] assms obtain w' where
    a: "updateCandles c w = Inr w'" and b: "map stripEMA w' = map stripEMA (trimWindow ?u)"
    by auto
  have une: "?u \<noteq> []" by simp
  from strip_same_last[OF b trimWindow_nonempty[OF une]] last_trimWindow[OF une]
  have "w' \<noteq> []" "stripEMA (last w') = stripEMA (c\<lparr>aiSignal := aiSignal (last w)\<rparr>)"
    by simp_all
  with a b show ?thesis by blast
qed

lemma updateCandles_append:
  assumes "w = [] \<or> time (last w) \<noteq> time c"
  shows "\<exists>w'. updateCandles c w = Inr w' \<and> w' \<noteq> [] \<and>
           stripEMA (last w') = stripEMA c \<and>
           map stripEMA w' = map stripEMA (trimWindow (w @ [c]))"
proof -
  from updateCandles_Inr[of c w] assms obtain w' where
    a: "updateCandles c w = Inr w'" and b: "map stripEMA w' = map stripEMA (trimWindow (w @ [c]))"
    by auto
  have une: "w @ [c] \<noteq> []" by simp
  from strip_same_last[OF b trimWindow_nonempty[OF une]] last_trimWindow[OF une]
  have "w' \<noteq> []" "stripEMA (last w') = stripEMA c" by simp_all
  with a b show ?thesis by blast
qed

lemma aggregate_merge:
  assumes "w \<noteq> []" and "time (last w) = (t div 60000) * 60000"
  shows "\<exists>w'. aggregateCandleLocally price t vol w = Inr w' \<and> w' \<noteq> [] \<and>
           length w' = length (trimWindow w) \<and>
           stripEMA (last w') =
             stripEMA ((last w)\<lparr>high := max (high (last w)) price,
                                low := min (low (last w)) price,
                                close := price, volume := volume (last w) + vol / 60\<rparr>)"
proof -
  let ?x = "(last w)\<lparr>high := max (high (last w)) price, low := min (low (last w)) price,
                     close := price, volume := volume (last w) + vol / 60\<rparr>"
  let ?u = "butlast w @ [?x]"
  from aggregateCandleLocally_Inr[of price t vol w] assms obtain w' where
    a: "aggregateCandleLocally price t vol w = Inr w'" and
    b: "map stripEMA w' = map stripEMA (trimWindow ?u)"
    by auto
  have une: "?u \<noteq> []" by simp
  have "length ?u = length w" using assms(1) by simp
  then have len: "length (trimWindow ?u) = length (trimWindow w)"
    by (simp only: length_trimWindow_min)
  from strip_same_last[OF b trimWindow_nonempty[OF une]] last_trimWindow[OF une]
  have "w' \<noteq> []" "stripEMA (last w') = stripEMA ?x" by simp_all
  with a strip_same_length[OF b] len show ?thesis by auto
qed

lemma aggregate_fresh:
  assumes "w = [] \<or> time (last w) \<noteq> (t div 60000) * 60000"
  shows "\<exists>w'. aggregateCandleLocally price t vol w = Inr w' \<and> w' \<noteq> [] \<and>
           map stripEMA w' =
             map stripEMA (trimWindow (w @
               [\<lparr>time = (t div 60000) * 60000, openPrice = price, high = price, low = price,
                 close = price, volume = vol / 60,
                 ema7 = None, ema25 = None, ema99 = None, aiSignal = None\<rparr>])) \<and>
           stripEMA (last w') =
               \<lparr>time = (t div 60000) * 60000, openPrice = price, high = price, low = price,
                close = price, volume = vol / 60,
                ema7 = None, ema25 = None, ema99 = None, aiSignal = None\<rparr>"
proof -
  let ?y = "\<lparr>time = (t div 60000) * 60000, openPrice = price, high = price, low = price,
                 close = price, volume = vol / 60,
                 ema7 = None, ema25 = None, ema99 = None, aiSignal = None\<rparr>"
  from aggregateCandleLocally_Inr[of price t vol w] assms obtain w' where
    a: "aggregateCandleLocally price t vol w = Inr w'" and
    b: "map stripEMA w' = map stripEMA (trimWindow (w @ [?y]))"
    by auto
  have une: "w @ [?y] \<noteq> []" by simp
  have sy: "stripEMA ?y = ?y" by (simp add: stripEMA_def)
  from strip_same_last[OF b trimWindow_nonempty[OF une]] last_trimWindow[OF une] sy
  have "w' \<noteq> []" "stripEMA (last w') = ?y" by simp_all
  with a b show ?thesis by blast
qed

text \<open>
  Claim C4, with the volume contribution that the code adds, \<open>vol / 60\<close>: two ticks in the
  bucket of the last candle leave a last candle with the same key and open, the maximum of
  the prior high and the two prices as high, the minimum of the prior low and the two
  prices as low, the second price as close, and the prior volume plus \<open>vol / 60\<close> of each
  tick as volume; a tick in another bucket appends a candle whose four prices are the
  tick's price and whose volume is \<open>vol / 60\<close>.
\<close>
theorem applyTick_same_bucket_and_new_bucket:
  "(w \<noteq> [] \<and> time (last w) = (t1 div 60000) * 60000 \<and>
    (t2 div 60000) * 60000 = (t1 div 60000) * 60000 \<longrightarrow>
      (\<exists>w1 w2. aggregateCandleLocally p1 t1 v1 w = Inr w1 \<and>
               aggregateCandleLocally p2 t2 v2 w1 = Inr w2 \<and>
               w2 \<noteq> [] \<and> length w2 = length w1 \<and>
               time (last w2) = (t1 div 60000) * 60000 \<and>
               openPrice (last w2) = openPrice (last w) \<and>
               high (last w2) = max (max (high (last w)) p1) p2 \<and>
               low (last w2) = min (min (low (last w)) p1) p2 \<and>
               close (last w2) = p2 \<and>
               volume (last w2) = volume (last w) + v1 / 60 + v2 / 60)) \<and>
   (w = [] \<or> time (last w) \<noteq> (t div 60000) * 60000 \<longrightarrow>
      (\<exists>w'. aggregateCandleLocally price t vol w = Inr w' \<and>
            map stripEMA w' =
              map stripEMA (trimWindow (w @
                [\<lparr>time = (t div 60000) * 60000, openPrice = price, high = price, low = price,
                  close = price, volume = vol / 60,
                  ema7 = None, ema25 = None, ema99 = None, aiSignal = None\<rparr>]))))"
proof (intro conjI impI)
  assume h: "w \<noteq> [] \<and> time (last w) = (t1 div 60000) * 60000 \<and>
             (t2 div 60000) * 60000 = (t1 div 60000) * 60000"
  let ?k = "(t1 div 60000) * 60000"
  let ?x1 = "(last w)\<lparr>high := max (high (last w)) p1, low := min (low (last w)) p1,
                      close := p1, volume := volume (last w) + v1 / 60\<rparr>"
  from h aggregate_merge[of w t1 p1 v1] obtain w1 where
    a1: "aggregateCandleLocally p1 t1 v1 w = Inr w1" and n1: "w1 \<noteq> []" and
    l1: "stripEMA (last w1) = stripEMA ?x1" and len1: "length w1 = length (trimWindow w)"
    by blast
  note f1 = stripEMA_eqD[OF l1]
  have k1: "time (last w1) = (t2 div 60000) * 60000" using f1(1) h by simp
  let ?x2 = "(last w1)\<lparr>high := max (high (last w1)) p2, low := min (low (last w1)) p2,
                      close := p2, volume := volume (last w1) + v2 / 60\<rparr>"
  from aggregate_merge[OF n1 k1, of p2 v2] obtain w2 where
    a2: "aggregateCandleLocally p2 t2 v2 w1 = Inr w2" and n2: "w2 \<noteq> []" and
    l2: "stripEMA (last w2) = stripEMA ?x2" and len2: "length w2 = length (trimWindow w1)"
    by blast
  note f2 = stripEMA_eqD[OF l2]
  have "length w1 \<le> MAX_CANDLES" unfolding len1 by (rule length_trimWindow)
  then have len: "length w2 = length w1" using len2 by (simp add: trimWindow_small)
  show "\<exists>w1 w2. aggregateCandleLocally p1 t1 v1 w = Inr w1 \<and>
               aggregateCandleLocally p2 t2 v2 w1 = Inr w2 \<and>
               w2 \<noteq> [] \<and> length w2 = length w1 \<and>
               time (last w2) = (t1 div 60000) * 60000 \<and>
               openPrice (last w2) = openPrice (last w) \<and>
               high (last w2) = max (max (high (last w)) p1) p2 \<and>
               low (last w2) = min (min (low (last w)) p1) p2 \<and>
               close (last w2) = p2 \<and>
               volume (last w2) = volume (last w) + v1 / 60 + v2 / 60"
    using a1 a2 n2 len f1 f2 h by (intro exI[of _ w1] exI[of _ w2]) simp
next
  assume h: "w = [] \<or> time (last w) \<noteq> (t div 60000) * 60000"
  from aggregate_fresh[OF h, of price vol]
  show "\<exists>w'. aggregateCandleLocally price t vol w = Inr w' \<and>
            map stripEMA w' =
              map stripEMA (trimWindow (w @
                [\<lparr>time = (t div 60000) * 60000, openPrice = price, high = price, low = price,
                  close = price, volume = vol / 60,
                  ema7 = None, ema25 = None, ema99 = None, aiSignal = None\<rparr>]))"
    by blast
qed

text \<open>A tick with \<open>vol = 60\<close> on an empty window gives a candle of volume 1, not 60.\<close>
theorem applyTick_volume_is_not_the_hint:
  "aggregateCandleLocally 100 0 60 [] =
     Inr [\<lparr>time = 0, openPrice = 100, high = 100, low = 100, close = 100, volume = 1,
           ema7 = None, ema25 = None, ema99 = None, aiSignal = None\<rparr>]
   \<and> (1::rat) \<noteq> 60"
  by (simp add: aggregateCandleLocally_def recalculateEMAs_def calculateEMA_def trimWindow_def
        MAX_CANDLES_def writeEMAs_def arrayAt_def)

lemma set_butlast_last: "w \<noteq> [] \<Longrightarrow> set w = insert (last w) (set (butlast w))"
  by (induction w) auto

lemma stampSignal_tag:
  assumes "signalOf s = Inr (Some sg)" and "w \<noteq> []"
  shows "stampSignal s w = Inr (butlast w @ [(last w)\<lparr>aiSignal := Some sg\<rparr>])"
  using assms by (simp add: stampSignal_def)

text \<open>
  Claim C1, for a key that no candle of the window but the last carries: after two calls of
  \<open>updateCandles\<close> with the same \<open>time\<close>, exactly one candle of the window has that key; it
  is the last one, the second call has not changed the length, its open, high, low, close
  and volume are those of the second candle, and its signal is the signal the last candle
  had after the first call (the first candle's own signal when the first call appended,
  the signal of the candle it replaced otherwise), also when the stamp of an analysis set
  that signal between the two calls.
\<close>
theorem applyCandle_twice_same_key:
  assumes key: "time c2 = time c1" and fresh: "time c1 \<notin> set (map time (butlast w))"
  shows "\<exists>w1 w2. updateCandles c1 w = Inr w1 \<and> updateCandles c2 w1 = Inr w2 \<and>
           count_list (map time w2) (time c1) = 1 \<and>
           w2 \<noteq> [] \<and> length w2 = length w1 \<and> time (last w2) = time c1 \<and>
           openPrice (last w2) = openPrice c2 \<and> high (last w2) = high c2 \<and>
           low (last w2) = low c2 \<and> close (last w2) = close c2 \<and>
           volume (last w2) = volume c2 \<and>
           aiSignal (last w2) = aiSignal (last w1) \<and>
           (w = [] \<or> time (last w) \<noteq> time c1 \<longrightarrow> aiSignal (last w1) = aiSignal c1) \<and>
           (w \<noteq> [] \<and> time (last w) = time c1 \<longrightarrow> aiSignal (last w1) = aiSignal (last w)) \<and>
           (\<forall>s sg. signalOf s = Inr (Some sg) \<longrightarrow>
              (\<exists>t w3. stampSignal s w1 = Inr t \<and> updateCandles c2 t = Inr w3 \<and>
                       w3 \<noteq> [] \<and> aiSignal (last w3) = Some sg))"
proof -
  let ?k = "time c1"
  let ?u1 = "if w \<noteq> [] \<and> time (last w) = ?k
             then butlast w @ [c1\<lparr>aiSignal := aiSignal (last w)\<rparr>] else w @ [c1]"
  from updateCandles_Inr[of c1 w] obtain w1 where
    a1: "updateCandles c1 w = Inr w1" and b1: "map stripEMA w1 = map stripEMA (trimWindow ?u1)"
    by blast
  have u1ne: "?u1 \<noteq> []" by simp
  have u1last: "time (last ?u1) = ?k" by simp
  have u1but: "?k \<notin> set (map time (butlast ?u1))"
  proof (cases "w \<noteq> [] \<and> time (last w) = ?k")
    case True
    then show ?thesis using fresh by simp
  next
    case False
    have "?k \<notin> set (map time w)"
    proof (cases "w = []")
      case True
      then show ?thesis by simp
    next
      case ne: False
      from set_butlast_last[OF ne] have "set (map time w) = insert (time (last w)) (set (map time (butlast w)))"
        by simp
      with fresh False ne show ?thesis by auto
    qed
    moreover have "butlast ?u1 = w" using False by auto
    ultimately show ?thesis by simp
  qed
  from strip_same_last[OF b1 trimWindow_nonempty[OF u1ne]] last_trimWindow[OF u1ne]
  have n1: "w1 \<noteq> []" and l1: "stripEMA (last w1) = stripEMA (last ?u1)" by simp_all
  have k1: "time (last w1) = time c2" using stripEMA_eqD(1)[OF l1] u1last key by simp
  have len1: "length w1 \<le> MAX_CANDLES"
    using strip_same_length[OF b1] by (simp add: length_trimWindow)
  have "map time (butlast w1) = butlast (map time w1)" by (simp add: map_butlast)
  also have "\<dots> = map time (butlast (trimWindow ?u1))"
    using strip_same_times[OF b1] by (simp add: map_butlast)
  finally have "set (map time (butlast w1)) \<subseteq> set (map time (butlast ?u1))"
    using butlast_trimWindow_subset[of ?u1] by auto
  with u1but have but1: "?k \<notin> set (map time (butlast w1))" by blast
  have sig1a: "w = [] \<or> time (last w) \<noteq> ?k \<longrightarrow> aiSignal (last w1) = aiSignal c1"
    using stripEMA_eqD(7)[OF l1] by auto
  have sig1b: "w \<noteq> [] \<and> time (last w) = ?k \<longrightarrow> aiSignal (last w1) = aiSignal (last w)"
    using stripEMA_eqD(7)[OF l1] by auto
  \<comment> \<open>the second call replaces\<close>
  let ?x2 = "c2\<lparr>aiSignal := aiSignal (last w1)\<rparr>"
  from updateCandles_replace[OF n1 k1] obtain w2 where
    a2: "updateCandles c2 w1 = Inr w2" and n2: "w2 \<noteq> []" and
    l2: "stripEMA (last w2) = stripEMA ?x2" and
    b2: "map stripEMA w2 = map stripEMA (trimWindow (butlast w1 @ [?x2]))"
    by blast
  have "length (butlast w1 @ [?x2]) = length w1" using n1 by simp
  with len1 have t2: "trimWindow (butlast w1 @ [?x2]) = butlast w1 @ [?x2]"
    by (simp add: trimWindow_small)
  have len2: "length w2 = length w1" using strip_same_length[OF b2] t2 n1 by simp
  have "map time w2 = map time (butlast w1) @ [?k]"
    using strip_same_times[OF b2] t2 key by simp
  then have cnt: "count_list (map time w2) ?k = 1"
    using but1 by (simp add: count_list_0_iff)
  note f2 = stripEMA_eqD[OF l2]
  \<comment> \<open>a stamp between the two calls\<close>
  have tag: "\<forall>s sg. signalOf s = Inr (Some sg) \<longrightarrow>
              (\<exists>t w3. stampSignal s w1 = Inr t \<and> updateCandles c2 t = Inr w3 \<and>
                       w3 \<noteq> [] \<and> aiSignal (last w3) = Some sg)"
  proof (intro allI impI)
    fix s sg assume sg: "signalOf s = Inr (Some sg)"
    let ?t = "butlast w1 @ [(last w1)\<lparr>aiSignal := Some sg\<rparr>]"
    have st: "stampSignal s w1 = Inr ?t" using stampSignal_tag[OF sg n1] .
    have tne: "?t \<noteq> []" and tk: "time (last ?t) = time c2" using k1 by simp_all
    from updateCandles_replace[OF tne tk] obtain w3 where
      a3: "updateCandles c2 ?t = Inr w3" and n3: "w3 \<noteq> []" and
      l3: "stripEMA (last w3) = stripEMA (c2\<lparr>aiSignal := aiSignal (last ?t)\<rparr>)"
      by blast
    have "aiSignal (last w3) = Some sg" using stripEMA_eqD(7)[OF l3] by simp
    with st a3 n3
    show "\<exists>t w3. stampSignal s w1 = Inr t \<and> updateCandles c2 t = Inr w3 \<and>
                  w3 \<noteq> [] \<and> aiSignal (last w3) = Some sg" by blast
  qed
  have o: "openPrice (last w2) = openPrice c2" "high (last w2) = high c2"
    "low (last w2) = low c2" "close (last w2) = close c2" "volume (last w2) = volume c2"
    "aiSignal (last w2) = aiSignal (last w1)" and tm: "time (last w2) = time c1"
    using f2 key by simp_all
  show ?thesis
    apply (rule exI[of _ w1])
    apply (rule exI[of _ w2])
    apply (intro conjI)
    using a1 a2 cnt n2 len2 tm o sig1a sig1b tag by blast+
qed

lemmas eval_window = updateCandles_def aggregateCandleLocally_def recalculateEMAs_def
  calculateEMA_def trimWindow_def MAX_CANDLES_def writeEMAs_def arrayAt_def flatCandle_def

text \<open>Two klines of the same minute after an older candle.\<close>
theorem applyCandle_twice_same_key_witness:
  "time (flatCandle 60000 101) = time (flatCandle 60000 100) \<and>
   time (flatCandle 60000 100) \<notin> set (map time (butlast [flatCandle 0 99])) \<and>
   (\<exists>w1 w2. updateCandles (flatCandle 60000 100) [flatCandle 0 99] = Inr w1 \<and>
      updateCandles (flatCandle 60000 101) w1 = Inr w2 \<and>
      count_list (map time w2) (time (flatCandle 60000 100)) = 1 \<and>
      close (last w2) = close (flatCandle 60000 101) \<and>
      aiSignal (last w2) = aiSignal (last w1))"
proof -
  have k: "time (flatCandle 60000 101) = time (flatCandle 60000 100)"
    by (simp add: flatCandle_def)
  have f: "time (flatCandle 60000 100) \<notin> set (map time (butlast [flatCandle 0 99]))"
    by simp
  from applyCandle_twice_same_key[OF k f] k f show ?thesis by blast
qed

text \<open>
  A key that an earlier candle of the window carries is appended again, and is then held
  by two candles. And a first call that replaces the last candle drops the signal of its
  own candle for the signal of the candle it replaces, so that signal is not there to be
  carried over by the second call.
\<close>
theorem applyCandle_stale_key_twice:
  "updateCandles (flatCandle 0 100) [flatCandle 0 100, flatCandle 60000 100] =
     Inr [flatCandle 0 100, flatCandle 60000 100, flatCandle 0 100] \<and>
   updateCandles (flatCandle 0 100) [flatCandle 0 100, flatCandle 60000 100, flatCandle 0 100] =
     Inr [flatCandle 0 100, flatCandle 60000 100, flatCandle 0 100] \<and>
   count_list (map time [flatCandle 0 100, flatCandle 60000 100, flatCandle 0 100])
     (time (flatCandle 0 100)) = 2 \<and>
   updateCandles ((flatCandle 0 101)\<lparr>aiSignal := Some bullish\<rparr>) [flatCandle 0 100] =
     Inr [flatCandle 0 101] \<and>
   updateCandles (flatCandle 0 102) [flatCandle 0 101] = Inr [flatCandle 0 102] \<and>
   aiSignal (flatCandle 0 102) \<noteq> Some bullish"
  by (simp add: eval_window)


text \<open>A kline and a tick of a new minute on a full window.\<close>
theorem window_bounded_fifo_witness:
  "MAX_CANDLES = 120 \<and>
   (\<exists>w'. applyEvents (take 1 [Kline (flatCandle 7200000 101)]) fullWindow = Inr w' \<and>
         length w' \<le> MAX_CANDLES) \<and>
   length fullWindow = MAX_CANDLES \<and>
   time (last fullWindow) \<noteq> time (flatCandle 7200000 101) \<and>
   (\<exists>w'. updateCandles (flatCandle 7200000 101) fullWindow = Inr w' \<and>
         map stripEMA w' = map stripEMA (tl fullWindow @ [flatCandle 7200000 101])) \<and>
   time (last fullWindow) \<noteq> (7200500 div 60000) * 60000 \<and>
   (\<exists>w'. aggregateCandleLocally 101 7200500 6 fullWindow = Inr w' \<and>
         map stripEMA w' =
           map stripEMA (tl fullWindow @
             [\<lparr>time = (7200500 div 60000) * 60000, openPrice = 101, high = 101, low = 101,
               close = 101, volume = 6 / 60,
               ema7 = None, ema25 = None, ema99 = None, aiSignal = None\<rparr>]))"
proof -
  have n: "0 < (1::nat) \<and> 1 \<le> length [Kline (flatCandle 7200000 101)]" by simp
  have len: "length fullWindow = MAX_CANDLES" by (simp add: fullWindow_def MAX_CANDLES_def)
  have lst: "time (last fullWindow) = 7140000"
    by (simp add: fullWindow_def last_map flatCandle_def)
  have h2: "length fullWindow = MAX_CANDLES \<and>
            time (last fullWindow) \<noteq> time (flatCandle 7200000 101)"
    using len lst by (simp add: flatCandle_def)
  have h3: "length fullWindow = MAX_CANDLES \<and>
            time (last fullWindow) \<noteq> (7200500 div 60000) * 60000"
    using len lst by simp
  from window_bounded_fifo[of "[Kline (flatCandle 7200000 101)]" fullWindow
      "flatCandle 7200000 101" 7200500 101 6] n h2 h3
  show ?thesis by blast
qed

text \<open>A kline of the last minute, then a tick and a kline of later minutes.\<close>
theorem keys_strictly_increasing_in_order_witness:
  "sorted_wrt (<) (map time [flatCandle 0 100, flatCandle 60000 100]) \<and>
   sorted (map eventKey
     [Kline (flatCandle 60000 101), Ticker 102 125000 6, Kline (flatCandle 180000 103)]) \<and>
   time (last [flatCandle 0 100, flatCandle 60000 100]) \<le>
     eventKey (hd [Kline (flatCandle 60000 101), Ticker 102 125000 6,
                   Kline (flatCandle 180000 103)]) \<and>
   (\<exists>w'. applyEvents
           (take 3 [Kline (flatCandle 60000 101), Ticker 102 125000 6,
                    Kline (flatCandle 180000 103)])
           [flatCandle 0 100, flatCandle 60000 100] = Inr w' \<and>
         sorted_wrt (<) (map time w'))"
proof -
  let ?W = "[flatCandle 0 100, flatCandle 60000 100]"
  let ?E = "[Kline (flatCandle 60000 101), Ticker 102 125000 6, Kline (flatCandle 180000 103)]"
  have a: "sorted_wrt (<) (map time ?W)" by (simp add: flatCandle_def)
  have b: "sorted (map eventKey ?E)" by (simp add: flatCandle_def)
  have c: "time (last ?W) \<le> eventKey (hd ?E)" by (simp add: flatCandle_def)
  then have c': "?W \<noteq> [] \<longrightarrow> ?E \<noteq> [] \<longrightarrow> time (last ?W) \<le> eventKey (hd ?E)" by blast
  have n: "3 \<le> length ?E" by simp
  from keys_strictly_increasing_in_order[OF a b c', rule_format, OF n] a b c
  show ?thesis by blast
qed

text \<open>A candle older than the last one is appended after it: the keys are not increasing.\<close>
theorem keys_out_of_order:
  "applyEvents [Kline (flatCandle 60000 100), Kline (flatCandle 0 100)] [] =
     Inr [flatCandle 60000 100, flatCandle 0 100] \<and>
   \<not> sorted_wrt (<) (map time [flatCandle 60000 100, flatCandle 0 100])"
  by (simp add: eval_window)

text \<open>Two ticks in the minute of the last candle, and a tick of the next minute.\<close>
theorem applyTick_same_bucket_and_new_bucket_witness:
  "[flatCandle 60000 100] \<noteq> [] \<and>
   time (last [flatCandle 60000 100]) = (61000 div 60000) * 60000 \<and>
   (119999 div 60000) * 60000 = (61000 div 60000) * (60000::int) \<and>
   (\<exists>w1 w2. aggregateCandleLocally 103 61000 6 [flatCandle 60000 100] = Inr w1 \<and>
            aggregateCandleLocally 98 119999 12 w1 = Inr w2 \<and>
            w2 \<noteq> [] \<and> length w2 = length w1 \<and>
            time (last w2) = (61000 div 60000) * 60000 \<and>
            openPrice (last w2) = openPrice (last [flatCandle 60000 100]) \<and>
            high (last w2) = max (max (high (last [flatCandle 60000 100])) 103) 98 \<and>
            low (last w2) = min (min (low (last [flatCandle 60000 100])) 103) 98 \<and>
            close (last w2) = 98 \<and>
            volume (last w2) = volume (last [flatCandle 60000 100]) + 6 / 60 + 12 / 60) \<and>
   time (last [flatCandle 60000 100]) \<noteq> (120000 div 60000) * 60000 \<and>
   (\<exists>w'. aggregateCandleLocally 105 120000 6 [flatCandle 60000 100] = Inr w' \<and>
         map stripEMA w' =
           map stripEMA (trimWindow ([flatCandle 60000 100] @
             [\<lparr>time = (120000 div 60000) * 60000, openPrice = 105, high = 105, low = 105,
               close = 105, volume = 6 / 60,
               ema7 = None, ema25 = None, ema99 = None, aiSignal = None\<rparr>])))"
proof -
  let ?W = "[flatCandle 60000 100]"
  have h1: "?W \<noteq> [] \<and> time (last ?W) = (61000 div 60000) * 60000 \<and>
            (119999 div 60000) * 60000 = (61000 div 60000) * (60000::int)"
    by (simp add: flatCandle_def)
  have h2: "time (last ?W) \<noteq> (120000 div 60000) * 60000" by (simp add: flatCandle_def)
  then have h2': "?W = [] \<or> time (last ?W) \<noteq> (120000 div 60000) * 60000" by blast
  from applyTick_same_bucket_and_new_bucket[of ?W 61000 119999 103 6 98 12 120000 105 6]
    h1 h2 h2'
  show ?thesis by blast
qed

section \<open>Properties of the collaborator wrapper\<close>

lemma analyzeMarketStrategy_Inr: "\<exists>r. analyzeMarketStrategy parseJSON now outcome = Inr r"
  by (simp add: analyzeMarketStrategy_def split: sum.split)

lemma analyze_rejected: "analyzeMarketStrategy parseJSON now Rejected = Inr (catchFallback now)"
  by (simp add: analyzeMarketStrategy_def analyzeBody_def)

lemma analyze_unparsable:
  "parseJSON (cleanJsonString (rawTextOf text)) = None \<Longrightarrow>
   analyzeMarketStrategy parseJSON now (Resolved text) = Inr (parseFallback now)"
  by (simp add: analyzeMarketStrategy_def analyzeBody_def)

text \<open>
  Claim C7: \<open>analyzeMarketStrategy\<close> always settles with a result and never with a failure;
  when the request to the collaborator is rejected, the result is the catch fallback, whose
  sentiment is the signal-interference text and whose reasoning is the retry text; when the
  collaborator answers and \<^verbatim>\<open>JSON.parse\<close> throws on the cleaned answer, the result is the parse
  fallback, whose sentiment is the neutral text; the two sentiments differ.
\<close>
theorem analyzeMarketStrategy_failure_modes:
  "(\<exists>r. analyzeMarketStrategy parseJSON now outcome = Inr r) \<and>
   analyzeMarketStrategy parseJSON now Rejected = Inr (catchFallback now) \<and>
   sentiment (catchFallback now) = JStr sentimentInterference \<and>
   reasoning (catchFallback now) = JStr textRetrying \<and>
   (parseJSON (cleanJsonString (rawTextOf text)) = None \<longrightarrow>
      analyzeMarketStrategy parseJSON now (Resolved text) = Inr (parseFallback now)) \<and>
   sentiment (parseFallback now) = JStr sentimentNeutral \<and>
   reasoning (parseFallback now) = JStr textRecalibrating \<and>
   sentiment (parseFallback now) \<noteq> sentiment (catchFallback now) \<and>
   sentimentInterference = [0x4FE1, 0x53F7, 0x5E72, 0x6270] \<and>
   sentimentNeutral = [0x4E2D, 0x6027, 0x20, 0x28, 0x4E, 0x45, 0x55, 0x54, 0x52, 0x41, 0x4C, 0x29]"
proof (intro conjI impI)
  show "\<exists>r. analyzeMarketStrategy parseJSON now outcome = Inr r"
    by (rule analyzeMarketStrategy_Inr)
  show "analyzeMarketStrategy parseJSON now Rejected = Inr (catchFallback now)"
    by (rule analyze_rejected)
  show "sentiment (catchFallback now) = JStr sentimentInterference"
    "reasoning (catchFallback now) = JStr textRetrying"
    by (simp_all add: catchFallback_def)
  show "sentiment (parseFallback now) = JStr sentimentNeutral"
    "reasoning (parseFallback now) = JStr textRecalibrating"
    by (simp_all add: parseFallback_def)
  show "sentiment (parseFallback now) \<noteq> sentiment (catchFallback now)"
    by (simp add: parseFallback_def catchFallback_def sentimentNeutral_def
        sentimentInterference_def)
  show "sentimentInterference = [0x4FE1, 0x53F7, 0x5E72, 0x6270]"
    by (simp add: sentimentInterference_def)
  show "sentimentNeutral =
          [0x4E2D, 0x6027, 0x20, 0x28, 0x4E, 0x45, 0x55, 0x54, 0x52, 0x41, 0x4C, 0x29]"
    by (simp add: sentimentNeutral_def)
next
  assume "parseJSON (cleanJsonString (rawTextOf text)) = None"
  then show "analyzeMarketStrategy parseJSON now (Resolved text) = Inr (parseFallback now)"
    by (rule analyze_unparsable)
qed

lemmas eval_clean = cleanJsonString_def rawTextOf_def trim_def isWhiteSpace_def fence_def
  fenceJson_def lastIndexOf_def substring_def textEmptyObject_def Let_def

text \<open>A fenced answer: the fences and the line breaks go, the object stays.\<close>

lemma clean_sample:
  "cleanJsonString [0x60, 0x60, 0x60, 0x6A, 0x73, 0x6F, 0x6E, 0x0A, 0x7B, 0x7D, 0x0A, 0x60, 0x60, 0x60]
     = [0x7B, 0x7D]"
  by (simp add: eval_clean)

text \<open>An answer the stand-in parser cannot read, and a rejected request.\<close>
theorem analyzeMarketStrategy_failure_modes_witness:
  "stubParse (cleanJsonString (rawTextOf (Some [0x6F, 0x6F, 0x70, 0x73]))) = None \<and>
   analyzeMarketStrategy stubParse 1700000000000 (Resolved (Some [0x6F, 0x6F, 0x70, 0x73]))
     = Inr (parseFallback 1700000000000) \<and>
   analyzeMarketStrategy stubParse 1700000000000 Rejected = Inr (catchFallback 1700000000000)"
proof -
  have h: "stubParse (cleanJsonString (rawTextOf (Some [0x6F, 0x6F, 0x70, 0x73]))) = None"
    by (simp add: eval_clean stubParse_def)
  from analyzeMarketStrategy_failure_modes[of stubParse 1700000000000 Rejected
      "Some [0x6F, 0x6F, 0x70, 0x73]"] h
  show ?thesis by blast
qed

text \<open>
  Claim C8 at a message whose event time is 5 ms ahead of the local clock: the primary
  handler publishes \<open>-5\<close>, the secondary handler publishes 0.
\<close>
theorem binance_latency_negative:
  "binanceLatency 1000 (Some 1005) = Some (- 5) \<and> coinbaseLatency 1000 (Some 1005) = Some 0"
  by (simp add: binanceLatency_def coinbaseLatency_def)

lemma coinbaseLatency_nonneg: "coinbaseLatency now t = Some l \<Longrightarrow> 0 \<le> l"
  by (auto simp add: coinbaseLatency_def split: option.splits)

section \<open>Properties of the analysis cycle\<close>

subsection \<open>The guard\<close>













subsection \<open>The memory stream\<close>

lemma fallback_lessons:
  "lessonWorthKeeping toNumber (learningNode (catchFallback now)) = Inr False"
  "lessonWorthKeeping toNumber (learningNode (parseFallback now)) = Inr False"
  by (simp_all add: lessonWorthKeeping_def catchFallback_def parseFallback_def
      textDisconnected_def textHold_def)

lemma memory_resumeAnalysis:
  "memoryStream (resumeAnalysis toNumber (Inr result) s) =
     (if lessonWorthKeeping toNumber (learningNode result) = Inr True
      then appendMemory (learningNode result) (memoryStream s) else memoryStream s)"
  by (simp add: resumeAnalysis_def finallyBlock_def Let_def split: sum.splits)

lemma memory_failed:
  assumes "outcome = Rejected \<or>
           (\<exists>text. outcome = Resolved text \<and> parseJSON (cleanJsonString (rawTextOf text)) = None)"
  shows "memoryStream (step parseJSON toNumber (AnalysisSettled outcome now) s) = memoryStream s"
proof -
  from assms have "analyzeMarketStrategy parseJSON now outcome = Inr (catchFallback now) \<or>
                   analyzeMarketStrategy parseJSON now outcome = Inr (parseFallback now)"
    by (auto simp add: analyzeMarketStrategy_def analyzeBody_def)
  then show ?thesis
    by (auto simp add: memory_resumeAnalysis fallback_lessons)
qed

lemma memory_other_events:
  assumes "\<forall>outcome now. e \<noteq> AnalysisSettled outcome now"
  shows "memoryStream (step parseJSON toNumber e s) = memoryStream s"
proof (cases e)
  case Trigger
  then show ?thesis by (simp add: runAnalysis_def)
next
  case (Feed ev)
  then show ?thesis
    by (simp add: onFeed_def startupEffect_def runAnalysis_def split: sum.splits)
next
  case (AnalysisSettled outcome now)
  with assms show ?thesis by blast
next
  case (HotspotsSettled r)
  then show ?thesis
    by (simp add: resumeHotspots_def finallyBlock_def Let_def split: option.splits)
qed

text \<open>
  Claim C10: the lessons of the two fallback results are four code units long and fail the
  test \<^verbatim>\<open>length > 5\<close>; a cycle whose request was rejected, or whose answer
  \<^verbatim>\<open>JSON.parse\<close> could not read, leaves the memory stream as it was; the memory stream
  changes only when an analysis settles with an answer that \<^verbatim>\<open>JSON.parse\<close> has read.
\<close>
theorem failed_cycle_keeps_memory:
  "learningNode (catchFallback now) = JStr textDisconnected \<and> length textDisconnected = 4 \<and>
   learningNode (parseFallback now) = JStr textHold \<and> length textHold = 4 \<and>
   lessonWorthKeeping toNumber (learningNode (catchFallback now)) = Inr False \<and>
   lessonWorthKeeping toNumber (learningNode (parseFallback now)) = Inr False \<and>
   (outcome = Rejected \<or>
    (\<exists>text. outcome = Resolved text \<and> parseJSON (cleanJsonString (rawTextOf text)) = None) \<longrightarrow>
      memoryStream (step parseJSON toNumber (AnalysisSettled outcome now) s) = memoryStream s) \<and>
   (memoryStream (step parseJSON toNumber (AnalysisSettled outcome now) s) \<noteq> memoryStream s \<longrightarrow>
      (\<exists>text v. outcome = Resolved text \<and>
                parseJSON (cleanJsonString (rawTextOf text)) = Some v)) \<and>
   ((\<forall>outcome now. e \<noteq> AnalysisSettled outcome now) \<longrightarrow>
      memoryStream (step parseJSON toNumber e s) = memoryStream s)"
proof (intro conjI impI)
  show "learningNode (catchFallback now) = JStr textDisconnected"
    by (simp add: catchFallback_def)
  show "length textDisconnected = 4" by (simp add: textDisconnected_def)
  show "learningNode (parseFallback now) = JStr textHold" by (simp add: parseFallback_def)
  show "length textHold = 4" by (simp add: textHold_def)
  show "lessonWorthKeeping toNumber (learningNode (catchFallback now)) = Inr False"
    "lessonWorthKeeping toNumber (learningNode (parseFallback now)) = Inr False"
    by (rule fallback_lessons)+
next
  assume "outcome = Rejected \<or>
    (\<exists>text. outcome = Resolved text \<and> parseJSON (cleanJsonString (rawTextOf text)) = None)"
  then show "memoryStream (step parseJSON toNumber (AnalysisSettled outcome now) s) = memoryStream s"
    by (rule memory_failed)
next
  assume ch: "memoryStream (step parseJSON toNumber (AnalysisSettled outcome now) s) \<noteq> memoryStream s"
  show "\<exists>text v. outcome = Resolved text \<and> parseJSON (cleanJsonString (rawTextOf text)) = Some v"
  proof (cases outcome)
    case Rejected
    with memory_failed[of outcome parseJSON toNumber now s] ch show ?thesis by blast
  next
    case (Resolved tx)
    show ?thesis
    proof (cases "parseJSON (cleanJsonString (rawTextOf tx))")
      case None
      with Resolved memory_failed[of outcome parseJSON toNumber now s] ch show ?thesis by blast
    next
      case (Some v)
      with Resolved show ?thesis by blast
    qed
  qed
next
  assume "\<forall>outcome now. e \<noteq> AnalysisSettled outcome now"
  then show "memoryStream (step parseJSON toNumber e s) = memoryStream s"
    by (rule memory_other_events)
qed

lemma waitingApp_facts:
  "suspended waitingApp = [AwaitAnalysis]" "memoryStream waitingApp = []"
  by (simp_all add: waitingApp_def runAnalysis_def readyApp_def initialApp_def)

lemma stub_unparsable:
  "stubParse (cleanJsonString (rawTextOf (Some [0x6F, 0x6F, 0x70, 0x73]))) = None"
  by (simp add: eval_clean stubParse_def)

lemma stub_lesson:
  "stubParse (cleanJsonString (rawTextOf (Some [0x7B, 0x7D, 0x7D]))) =
     Some (JObj [(nameLearningNode, JStr textAbnormal), (nameSentiment, JStr kwBEARISH)])"
  by (simp add: eval_clean stubParse_def)

lemma stub_lesson_kept:
  "memoryStream (step stubParse stubToNumber (AnalysisSettled (Resolved (Some [0x7B, 0x7D, 0x7D])) 5)
      waitingApp) = [JStr textAbnormal]"
  by (simp add: waitingApp_facts memory_resumeAnalysis analyzeMarketStrategy_def analyzeBody_def
      stub_lesson nameLearningNode_def nameSentiment_def nameEntryPoint_def nameExitPoint_def
      nameReasoning_def orDefault_def lessonWorthKeeping_def textAbnormal_def appendMemory_def)

text \<open>A rejected request, an unreadable answer and an answer with a lesson.\<close>
theorem failed_cycle_keeps_memory_witness:
  "memoryStream (step stubParse stubToNumber (AnalysisSettled Rejected 5) waitingApp)
     = memoryStream waitingApp \<and>
   stubParse (cleanJsonString (rawTextOf (Some [0x6F, 0x6F, 0x70, 0x73]))) = None \<and>
   memoryStream (step stubParse stubToNumber
       (AnalysisSettled (Resolved (Some [0x6F, 0x6F, 0x70, 0x73])) 5) waitingApp)
     = memoryStream waitingApp \<and>
   memoryStream (step stubParse stubToNumber
       (AnalysisSettled (Resolved (Some [0x7B, 0x7D, 0x7D])) 5) waitingApp)
     \<noteq> memoryStream waitingApp \<and>
   (\<exists>text v. Resolved (Some [0x7B, 0x7D, 0x7D]) = Resolved text \<and>
             stubParse (cleanJsonString (rawTextOf text)) = Some v) \<and>
   memoryStream (step stubParse stubToNumber Trigger waitingApp) = memoryStream waitingApp"
proof -
  have a: "memoryStream (step stubParse stubToNumber (AnalysisSettled Rejected 5) waitingApp)
             = memoryStream waitingApp"
    using failed_cycle_keeps_memory[of 5 stubToNumber Rejected stubParse waitingApp Trigger]
    by blast
  have b: "memoryStream (step stubParse stubToNumber
              (AnalysisSettled (Resolved (Some [0x6F, 0x6F, 0x70, 0x73])) 5) waitingApp)
             = memoryStream waitingApp"
    using failed_cycle_keeps_memory[of 5 stubToNumber "Resolved (Some [0x6F, 0x6F, 0x70, 0x73])"
        stubParse waitingApp Trigger] stub_unparsable
    by blast
  have c: "memoryStream (step stubParse stubToNumber
              (AnalysisSettled (Resolved (Some [0x7B, 0x7D, 0x7D])) 5) waitingApp)
             \<noteq> memoryStream waitingApp"
    unfolding stub_lesson_kept waitingApp_facts by simp
  have d: "\<exists>text v. Resolved (Some [0x7B, 0x7D, 0x7D]) = Resolved text \<and>
             stubParse (cleanJsonString (rawTextOf text)) = Some v"
    using failed_cycle_keeps_memory[of 5 stubToNumber "Resolved (Some [0x7B, 0x7D, 0x7D])"
        stubParse waitingApp Trigger] c
    by blast
  have e: "memoryStream (step stubParse stubToNumber Trigger waitingApp) = memoryStream waitingApp"
    using failed_cycle_keeps_memory[of 5 stubToNumber Rejected stubParse waitingApp Trigger]
    by blast
  from a stub_unparsable b c d e show ?thesis by blast
qed

subsection \<open>The startup trigger\<close>

lemmas eval_feed = eval_window onFeed_def startupEffect_def runAnalysis_def initialApp_def
  tenKlines_def

text \<open>
  Claim C5 at ten klines on an empty window: the window holds ten candles, no analysis
  exists, and the startup effect has not called \<open>runAnalysis\<close> (nothing is suspended, the
  flag is free), although a call of \<open>runAnalysis\<close> would pass its own guard there; the
  eleventh kline makes the effect start the cycle.
\<close>
theorem startup_trigger_fires_at_eleven:
  "length (candleData (steps stubParse stubToNumber tenKlines (initialApp []))) = 10 \<and>
   analysis (steps stubParse stubToNumber tenKlines (initialApp [])) = None \<and>
   suspended (steps stubParse stubToNumber tenKlines (initialApp [])) = [] \<and>
   \<not> analysisInProgress (steps stubParse stubToNumber tenKlines (initialApp [])) \<and>
   suspended (runAnalysis (steps stubParse stubToNumber tenKlines (initialApp []))) = [AwaitAnalysis] \<and>
   suspended (step stubParse stubToNumber (Feed (Kline (flatCandle 600000 100)))
               (steps stubParse stubToNumber tenKlines (initialApp []))) = [AwaitAnalysis]"
  by (simp add: eval_feed)

end
